theory Spec2Isabelle
  imports Complex_Main
begin

section \<open>Common conventions\<close>

text \<open>
  The pricing library is written in Python over NumPy, SciPy and QuantLib. Python floats
  are modelled as the real numbers they approximate (type \<open>real\<close>): every statement below
  is about the exact arithmetic of the formulas, not about IEEE rounding, NaN or infinity.
  Calls into QuantLib, NumPy's random generator, the least-squares solver, the sparse
  factorisation and the root finder are parameters of the model. A call that can raise
  returns \<open>error + 'a\<close>, with \<open>Inl\<close> the exception.
\<close>

datatype error =
  KeyError | TypeError | ValueError | IndexError | AttributeError
  | RuntimeError | LinAlgError | ZeroDivisionError

text \<open>
  A term structure object. \<open>ZeroSpreaded c s\<close> is
  \<open>ql.ZeroSpreadedTermStructure\<close> over the curve \<open>c\<close> with the quote \<open>s\<close>.
\<close>

datatype curve = MarketCurve nat | ZeroSpreaded curve real

section \<open>The orchestrator (pricer.py)\<close>

text \<open>
  \<open>MasterPricer\<close> holds the relinkable handle \<open>ts_base\<close> and the list \<open>_keep_alive\<close>; both
  are mutated by its methods, so they form the state that is passed through.
\<close>

record pricer_state =
  ts_base_link :: curve
  keep_alive :: "curve list"

text \<open>
  The configuration attributes read by \<open>metrics\<close>. \<open>risk_bump_bps\<close> is read with
  \<open>getattr(cfg, "risk_bump_bps", cfg.bump_bps)\<close>: \<open>None\<close> is an absent attribute.
\<close>

record risk_config =
  bump_bps :: real
  risk_bump_bps :: "real option"

text \<open>
  What \<open>calculate\<close> calls outside pricer.py. The three engine fields stand for the
  statement \<open>dirty, sc = Engine(cfg).price(ts_use, bond_data, params, state_cache)\<close>
  of each dispatch branch, that is the engine call (the engine classes are bound by the
  package \<open>engines\<close>) together with the unpacking of its result; \<open>Inl\<close> is an exception
  raised there. \<open>straight_clean\<close> is the clean price of the reference straight bond under
  the discounting engine, \<open>accrued\<close> its accrued amount, and \<open>ql_tree_clean\<close> the body of
  the \<open>try\<close> block of a QuantLib reference tree: building the short-rate model from the
  parameters and pricing the reference callable bond.
\<close>

datatype ql_tree_model = HullWhite | ExtendedCoxIngersollRoss | BlackKarasinski

record ('p, 'c) collaborators =
  straight_clean :: "curve \<Rightarrow> error + real"
  accrued :: real
  hw_lsmc :: "curve \<Rightarrow> 'p \<Rightarrow> 'c option \<Rightarrow> error + (real \<times> 'c option)"
  cir_pde :: "curve \<Rightarrow> 'p \<Rightarrow> 'c option \<Rightarrow> error + (real \<times> 'c option)"
  kwf_tree :: "curve \<Rightarrow> 'p \<Rightarrow> 'c option \<Rightarrow> error + (real \<times> 'c option)"
  ql_tree_clean :: "ql_tree_model \<Rightarrow> curve \<Rightarrow> 'p \<Rightarrow> error + real"

text \<open>\<open>_make_ts_with_oas\<close>: the curve the engines see, and the updated \<open>_keep_alive\<close>.\<close>

definition make_ts_with_oas :: "real \<Rightarrow> pricer_state \<Rightarrow> curve \<times> pricer_state" where
  "make_ts_with_oas oas_decimal s =
     (if \<bar>oas_decimal\<bar> \<le> 1 / 10 ^ 12 then (ts_base_link s, s)
      else (let risky_obj = ZeroSpreaded (ts_base_link s) oas_decimal
            in (risky_obj, s\<lparr>keep_alive := [risky_obj]\<rparr>)))"

text \<open>Python's \<open>sub in s\<close> on strings.\<close>

fun starts_with :: "string \<Rightarrow> string \<Rightarrow> bool" where
  "starts_with [] s = True"
| "starts_with (c # cs) [] = False"
| "starts_with (c # cs) (d # ds) = (c = d \<and> starts_with cs ds)"

fun str_contains :: "string \<Rightarrow> string \<Rightarrow> bool" where
  "str_contains sub [] = (sub = [])"
| "str_contains sub (d # ds) = (starts_with sub (d # ds) \<or> str_contains sub ds)"

text \<open>The result of one engine branch: \<open>return float(dirty - accrued), sc\<close>.\<close>

definition to_clean ::
  "real \<Rightarrow> error + (real \<times> 'c option) \<Rightarrow> error + (real \<times> 'c option)" where
  "to_clean acc r = (case r of Inl e \<Rightarrow> Inl e | Inr (dirty, sc) \<Rightarrow> Inr (dirty - acc, sc))"

text \<open>The \<open>try\<close> block of the QuantLib reference trees: any exception gives \<open>(0.0, None)\<close>.\<close>

definition ql_tree_branch ::
  "('p, 'c) collaborators \<Rightarrow> string \<Rightarrow> curve \<Rightarrow> 'p \<Rightarrow> real \<times> 'c option" where
  "ql_tree_branch E method ts_use params =
     (if method = ''HW_QL_TREE'' then
        (case ql_tree_clean E HullWhite ts_use params of
           Inl e \<Rightarrow> (0, None) | Inr p \<Rightarrow> (p, None))
      else if method = ''CIR_QL_TREE'' then
        (case ql_tree_clean E ExtendedCoxIngersollRoss ts_use params of
           Inl e \<Rightarrow> (0, None) | Inr p \<Rightarrow> (p, None))
      else if method = ''KWF_QL_TREE'' then
        (case ql_tree_clean E BlackKarasinski ts_use params of
           Inl e \<Rightarrow> (0, None) | Inr p \<Rightarrow> (p, None))
      else (0, None))"

definition calculate ::
  "('p, 'c) collaborators \<Rightarrow> 'p \<Rightarrow> string \<Rightarrow> real \<Rightarrow> 'c option \<Rightarrow> pricer_state
     \<Rightarrow> (error + (real \<times> 'c option)) \<times> pricer_state" where
  "calculate E params method oas_decimal state_cache s =
     (let (ts_use, s') = make_ts_with_oas oas_decimal s in
      if method = ''STRAIGHT BOND'' then
        (case straight_clean E ts_use of
           Inl e \<Rightarrow> (Inl e, s') | Inr p \<Rightarrow> (Inr (p, None), s'))
      else if method = ''HW_LSMC'' then
        (to_clean (accrued E) (hw_lsmc E ts_use params state_cache), s')
      else if method = ''CIR_PDE'' then
        (to_clean (accrued E) (cir_pde E ts_use params state_cache), s')
      else if method = ''KWF_MANUAL'' then
        (to_clean (accrued E) (kwf_tree E ts_use params state_cache), s')
      else if str_contains ''QL_TREE'' method then
        (Inr (ql_tree_branch E method ts_use params), s')
      else (Inr (0, None), s'))"

text \<open>
  \<open>metrics\<close> returns three numbers, or four values when \<open>return_state\<close> is set.
\<close>

datatype 'c metrics_result =
  Metrics3 real real real
  | Metrics4 real real real "'c option"

definition pack ::
  "bool \<Rightarrow> real \<Rightarrow> real \<Rightarrow> real \<Rightarrow> 'c option \<Rightarrow> 'c metrics_result" where
  "pack return_state p d c state =
     (if return_state then Metrics4 p d c state else Metrics3 p d c)"

text \<open>The bump size: \<open>float(getattr(cfg, "risk_bump_bps", cfg.bump_bps)) / 10000.0\<close>.\<close>

definition bump_size :: "risk_config \<Rightarrow> real" where
  "bump_size cfg =
     (case risk_bump_bps cfg of None \<Rightarrow> bump_bps cfg | Some b \<Rightarrow> b) / 10000"

text \<open>
  The body of the \<open>try\<close> block of \<open>metrics\<close>: relink to \<open>base + dy\<close>, reprice, relink to
  \<open>base - dy\<close>, reprice. An exception leaves the block with the state reached so far.
\<close>

definition bump_and_reprice ::
  "('p, 'c) collaborators \<Rightarrow> 'p \<Rightarrow> string \<Rightarrow> real \<Rightarrow> 'c option \<Rightarrow> curve \<Rightarrow> real
     \<Rightarrow> pricer_state \<Rightarrow> (error + (real \<times> real)) \<times> pricer_state" where
  "bump_and_reprice E params method oas_decimal state base_ptr dy s =
     (let ts_up = ZeroSpreaded base_ptr dy;
          s1 = s\<lparr>ts_base_link := ts_up\<rparr>
      in case calculate E params method oas_decimal state s1 of
           (Inl e, s2) \<Rightarrow> (Inl e, s2)
         | (Inr (Pup, _), s2) \<Rightarrow>
             (let ts_dn = ZeroSpreaded base_ptr (- dy);
                  s3 = s2\<lparr>ts_base_link := ts_dn\<rparr>
              in case calculate E params method oas_decimal state s3 of
                   (Inl e, s4) \<Rightarrow> (Inl e, s4)
                 | (Inr (Pdn, _), s4) \<Rightarrow> (Inr (Pup, Pdn), s4)))"

definition metrics ::
  "('p, 'c) collaborators \<Rightarrow> risk_config \<Rightarrow> 'p \<Rightarrow> string \<Rightarrow> real \<Rightarrow> 'c option \<Rightarrow> bool
     \<Rightarrow> pricer_state \<Rightarrow> (error + 'c metrics_result) \<times> pricer_state" where
  "metrics E cfg params method oas_decimal state_cache return_state s =
     (case calculate E params method oas_decimal state_cache s of
        (Inl e, s0) \<Rightarrow> (Inl e, s0)
      | (Inr (P0, state), s0) \<Rightarrow>
          if P0 \<le> 1 / 10 ^ 8 then (Inr (pack return_state 0 0 0 state), s0)
          else
            (let dy = bump_size cfg in
             if \<bar>dy\<bar> < 1 / 10 ^ 12 then (Inr (pack return_state P0 0 0 state), s0)
             else
               (let base_ptr = ts_base_link s0;
                    (r, s1) = bump_and_reprice E params method oas_decimal state base_ptr dy s0;
                    s2 = s1\<lparr>ts_base_link := base_ptr\<rparr>
                in case r of
                     Inl e \<Rightarrow> (Inl e, s2)
                   | Inr (Pup, Pdn) \<Rightarrow>
                       (let dur = (Pdn - Pup) / (2 * P0 * dy);
                            conv = (Pup + Pdn - 2 * P0) / (P0 * dy\<^sup>2)
                        in (Inr (pack return_state P0 dur conv state), s2)))))"

subsection \<open>Concrete collaborators for the orchestrator\<close>

text \<open>
  A reference bond whose clean price is 100 on a market curve and
  \<open>100 - 1000 x + 50000 x\<^sup>2\<close> on a curve spread by \<open>x\<close>, two variants whose pricing raises
  on an upward, respectively a downward, spread, and engines built from them.
\<close>

fun flat_price :: "curve \<Rightarrow> error + real" where
  "flat_price (MarketCurve n) = Inr 100"
| "flat_price (ZeroSpreaded c x) = Inr (100 - 1000 * x + 50000 * x\<^sup>2)"

fun up_fails :: "curve \<Rightarrow> error + real" where
  "up_fails (MarketCurve n) = Inr 100"
| "up_fails (ZeroSpreaded c x) = (if 0 < x then Inl RuntimeError else Inr 101)"

fun down_fails :: "curve \<Rightarrow> error + real" where
  "down_fails (MarketCurve n) = Inr 100"
| "down_fails (ZeroSpreaded c x) = (if x < 0 then Inl RuntimeError else Inr 99)"

definition demo_collaborators :: "(curve \<Rightarrow> error + real) \<Rightarrow> (unit, nat) collaborators" where
  "demo_collaborators f =
     \<lparr>straight_clean = f, accrued = 1,
      hw_lsmc = (\<lambda>c p sc. Inl ValueError),
      cir_pde = (\<lambda>c p sc. case f c of Inl e \<Rightarrow> Inl e | Inr x \<Rightarrow> Inr (x + 1, Some 7)),
      kwf_tree = (\<lambda>c p sc. Inl AttributeError),
      ql_tree_clean = (\<lambda>m c p. Inl RuntimeError)\<rparr>"

definition demo_config :: "real \<Rightarrow> risk_config" where
  "demo_config b = \<lparr>bump_bps = b, risk_bump_bps = Some b\<rparr>"

definition demo_state :: pricer_state where
  "demo_state = \<lparr>ts_base_link = MarketCurve 0, keep_alive = []\<rparr>"

subsection \<open>Properties of the orchestrator\<close>

lemma make_ts_with_oas_link:
  "ts_base_link (snd (make_ts_with_oas oas s)) = ts_base_link s"
  by (simp add: make_ts_with_oas_def Let_def)

lemma to_clean_cases:
  "to_clean acc r = (case r of Inl e \<Rightarrow> Inl e | Inr (dirty, sc) \<Rightarrow> Inr (dirty - acc, sc))"
  by (simp add: to_clean_def)

lemma calculate_snd:
  "snd (calculate E params method oas sc s) = snd (make_ts_with_oas oas s)"
  by (simp add: calculate_def Let_def split_beta split: sum.splits)

lemma calculate_link:
  "ts_base_link (snd (calculate E params method oas sc s)) = ts_base_link s"
  by (simp add: calculate_snd make_ts_with_oas_link)

lemma make_ts_with_oas_curve:
  "ts_base_link s = ts_base_link s' \<Longrightarrow>
     fst (make_ts_with_oas oas s) = fst (make_ts_with_oas oas s')"
  by (simp add: make_ts_with_oas_def Let_def)

lemma calculate_reads_link_only:
  "ts_base_link s = ts_base_link s' \<Longrightarrow>
     fst (calculate E params method oas sc s) = fst (calculate E params method oas sc s')"
  using make_ts_with_oas_curve [of s s' oas]
  by (simp add: calculate_def Let_def split_beta split: sum.splits)


lemma bump_and_reprice_result:
  "fst (bump_and_reprice E params method oas state base_ptr dy s) =
     (case fst (calculate E params method oas state (s\<lparr>ts_base_link := ZeroSpreaded base_ptr dy\<rparr>)) of
        Inl e \<Rightarrow> Inl e
      | Inr (Pup, cu) \<Rightarrow>
          (case fst (calculate E params method oas state (s\<lparr>ts_base_link := ZeroSpreaded base_ptr (- dy)\<rparr>)) of
             Inl e \<Rightarrow> Inl e
           | Inr (Pdn, cd) \<Rightarrow> Inr (Pup, Pdn)))"
proof -
  let ?s1 = "s\<lparr>ts_base_link := ZeroSpreaded base_ptr dy\<rparr>"
  obtain r1 s2 where c1: "calculate E params method oas state ?s1 = (r1, s2)"
    by (cases "calculate E params method oas state ?s1")
  show ?thesis
  proof (cases r1)
    case (Inl e)
    with c1 show ?thesis by (simp add: bump_and_reprice_def Let_def)
  next
    case (Inr pc)
    obtain Pup cu where pc: "pc = (Pup, cu)" by (cases pc)
    let ?s3 = "s2\<lparr>ts_base_link := ZeroSpreaded base_ptr (- dy)\<rparr>"
    obtain r3 s4 where c3: "calculate E params method oas state ?s3 = (r3, s4)"
      by (cases "calculate E params method oas state ?s3")
    have "fst (calculate E params method oas state (s\<lparr>ts_base_link := ZeroSpreaded base_ptr (- dy)\<rparr>)) =
          fst (calculate E params method oas state ?s3)"
      by (rule calculate_reads_link_only) simp
    then have dn: "fst (calculate E params method oas state (s\<lparr>ts_base_link := ZeroSpreaded base_ptr (- dy)\<rparr>)) = r3"
      using c3 by simp
    show ?thesis
    proof (cases r3)
      case (Inl e3)
      with c1 c3 Inr pc show ?thesis by (simp add: bump_and_reprice_def Let_def dn)
    next
      case r3: (Inr pd)
      obtain Pdn cd where pd: "pd = (Pdn, cd)" by (cases pd)
      with c1 c3 Inr pc r3 show ?thesis by (simp add: bump_and_reprice_def Let_def dn)
    qed
  qed
qed

lemma bump_and_reprice_state_irrelevant:
  "fst (bump_and_reprice E params method oas state base_ptr dy s) =
   fst (bump_and_reprice E params method oas state base_ptr dy s')"
proof -
  have "fst (calculate E params method oas state (s\<lparr>ts_base_link := c\<rparr>)) =
        fst (calculate E params method oas state (s'\<lparr>ts_base_link := c\<rparr>))" for c
    by (rule calculate_reads_link_only) simp
  then show ?thesis unfolding bump_and_reprice_result by (simp split: sum.splits prod.splits)
qed

text \<open>
  C1. Whenever \<open>metrics\<close> reaches the bump phase (the base price exceeds \<open>1e-8\<close> and the
  bump size is not below \<open>1e-12\<close> in absolute value), the link of the base curve handle
  after the call is its link before the call, on every exit path: when the bumped
  repricing raises, \<open>metrics\<close> leaves with that exception, and when both repricings
  return it returns a result; the link is restored in both cases.
\<close>

theorem metrics_restores_link:
  assumes "fst (calculate E params method oas sc s) = Inr (P0, state)"
    and "1 / 10 ^ 8 < P0"
    and "\<not> \<bar>bump_size cfg\<bar> < 1 / 10 ^ 12"
  shows "ts_base_link (snd (metrics E cfg params method oas sc rs s)) = ts_base_link s
     \<and> (case fst (bump_and_reprice E params method oas state (ts_base_link s) (bump_size cfg)
                    (snd (calculate E params method oas sc s))) of
          Inl e \<Rightarrow> fst (metrics E cfg params method oas sc rs s) = Inl e
        | Inr (Pup, Pdn) \<Rightarrow> \<not> isl (fst (metrics E cfg params method oas sc rs s)))"
proof -
  obtain s0 where c0: "calculate E params method oas sc s = (Inr (P0, state), s0)"
    using assms(1) by (cases "calculate E params method oas sc s") simp
  have l0: "ts_base_link s0 = ts_base_link s"
    using calculate_link [of E params "method" oas sc s] c0 by simp
  obtain r s1 where b: "bump_and_reprice E params method oas state (ts_base_link s) (bump_size cfg) s0 = (r, s1)"
    by (cases "bump_and_reprice E params method oas state (ts_base_link s) (bump_size cfg) s0")
  show ?thesis
  proof (cases r)
    case (Inl e)
    with c0 l0 b assms(2,3) show ?thesis by (simp add: metrics_def Let_def)
  next
    case (Inr pp)
    obtain Pup Pdn where "pp = (Pup, Pdn)" by (cases pp)
    with Inr c0 l0 b assms(2,3) show ?thesis by (simp add: metrics_def Let_def)
  qed
qed


text \<open>
  C2. When the base call of \<open>calculate\<close> returns the price \<open>P0\<close> and the cache \<open>state\<close>:
  \<open>metrics\<close> returns zeros when \<open>P0 \<le> 1e-8\<close>; otherwise it returns \<open>(P0, 0, 0)\<close> when the
  bump size \<open>dy\<close> is below \<open>1e-12\<close> in absolute value; otherwise, with \<open>Pup\<close> and \<open>Pdn\<close>
  the prices that \<open>calculate\<close> returns with the same cache \<open>state\<close> when the base handle
  is linked to the base curve spread by \<open>+dy\<close> and by \<open>-dy\<close>, it returns the duration
  \<open>(Pdn - Pup) / (2 P0 dy)\<close> and the convexity \<open>(Pup + Pdn - 2 P0) / (P0 dy\<^sup>2)\<close>.
\<close>

theorem metrics_formulas:
  assumes "fst (calculate E params method oas sc s) = Inr (P0, state)"
  shows "(P0 \<le> 1 / 10 ^ 8 \<longrightarrow>
            fst (metrics E cfg params method oas sc rs s) = Inr (pack rs 0 0 0 state))
     \<and> (1 / 10 ^ 8 < P0 \<and> \<bar>bump_size cfg\<bar> < 1 / 10 ^ 12 \<longrightarrow>
            fst (metrics E cfg params method oas sc rs s) = Inr (pack rs P0 0 0 state))
     \<and> (1 / 10 ^ 8 < P0 \<and> \<not> \<bar>bump_size cfg\<bar> < 1 / 10 ^ 12
          \<and> fst (calculate E params method oas state
                 (s\<lparr>ts_base_link := ZeroSpreaded (ts_base_link s) (bump_size cfg)\<rparr>)) = Inr (Pup, cu)
          \<and> fst (calculate E params method oas state
                 (s\<lparr>ts_base_link := ZeroSpreaded (ts_base_link s) (- bump_size cfg)\<rparr>)) = Inr (Pdn, cd)
          \<longrightarrow>
            fst (metrics E cfg params method oas sc rs s) =
              Inr (pack rs P0 ((Pdn - Pup) / (2 * P0 * bump_size cfg))
                     ((Pup + Pdn - 2 * P0) / (P0 * (bump_size cfg)\<^sup>2)) state))"
proof -
  obtain s0 where c0: "calculate E params method oas sc s = (Inr (P0, state), s0)"
    using assms(1) by (cases "calculate E params method oas sc s") simp
  have l0: "ts_base_link s0 = ts_base_link s"
    using calculate_link [of E params "method" oas sc s] c0 by simp
  have zero: "P0 \<le> 1 / 10 ^ 8 \<Longrightarrow>
      fst (metrics E cfg params method oas sc rs s) = Inr (pack rs 0 0 0 state)"
    using c0 by (simp add: metrics_def)
  have nodelta: "1 / 10 ^ 8 < P0 \<Longrightarrow> \<bar>bump_size cfg\<bar> < 1 / 10 ^ 12 \<Longrightarrow>
      fst (metrics E cfg params method oas sc rs s) = Inr (pack rs P0 0 0 state)"
    using c0 by (simp add: metrics_def Let_def)
  have bumped: "fst (metrics E cfg params method oas sc rs s) =
      Inr (pack rs P0 ((Pdn - Pup) / (2 * P0 * bump_size cfg))
             ((Pup + Pdn - 2 * P0) / (P0 * (bump_size cfg)\<^sup>2)) state)"
    if p: "1 / 10 ^ 8 < P0" and d: "\<not> \<bar>bump_size cfg\<bar> < 1 / 10 ^ 12"
      and up: "fst (calculate E params method oas state
                 (s\<lparr>ts_base_link := ZeroSpreaded (ts_base_link s) (bump_size cfg)\<rparr>)) = Inr (Pup, cu)"
      and dn: "fst (calculate E params method oas state
                 (s\<lparr>ts_base_link := ZeroSpreaded (ts_base_link s) (- bump_size cfg)\<rparr>)) = Inr (Pdn, cd)"
  proof -
    have "fst (bump_and_reprice E params method oas state (ts_base_link s) (bump_size cfg) s0) =
          fst (bump_and_reprice E params method oas state (ts_base_link s) (bump_size cfg) s)"
      by (rule bump_and_reprice_state_irrelevant)
    also have "\<dots> = Inr (Pup, Pdn)"
      by (simp add: bump_and_reprice_result up dn)
    finally obtain s1 where
      b: "bump_and_reprice E params method oas state (ts_base_link s) (bump_size cfg) s0 = (Inr (Pup, Pdn), s1)"
      by (cases "bump_and_reprice E params method oas state (ts_base_link s) (bump_size cfg) s0") simp
    show ?thesis using c0 l0 b p d by (simp add: metrics_def Let_def)
  qed
  show ?thesis using zero nodelta bumped by blast
qed

text \<open>
  C10. For a method string that is none of the seven recognised ones, \<open>calculate\<close>
  returns the price 0 and no cache; it returns the same when the method is one of the
  three QuantLib reference trees and building or pricing the tree raises.
\<close>

theorem calculate_unrecognised_method:
  "(method \<notin> {''STRAIGHT BOND'', ''HW_LSMC'', ''CIR_PDE'', ''KWF_MANUAL'',
                ''HW_QL_TREE'', ''CIR_QL_TREE'', ''KWF_QL_TREE''} \<longrightarrow>
      fst (calculate E params method oas sc s) = Inr (0, None))
   \<and> ((method = ''HW_QL_TREE'' \<and>
          ql_tree_clean E HullWhite (fst (make_ts_with_oas oas s)) params = Inl e) \<or>
        (method = ''CIR_QL_TREE'' \<and>
          ql_tree_clean E ExtendedCoxIngersollRoss (fst (make_ts_with_oas oas s)) params = Inl e) \<or>
        (method = ''KWF_QL_TREE'' \<and>
          ql_tree_clean E BlackKarasinski (fst (make_ts_with_oas oas s)) params = Inl e) \<longrightarrow>
      fst (calculate E params method oas sc s) = Inr (0, None))"
proof (intro conjI impI)
  assume "method \<notin> {''STRAIGHT BOND'', ''HW_LSMC'', ''CIR_PDE'', ''KWF_MANUAL'',
                ''HW_QL_TREE'', ''CIR_QL_TREE'', ''KWF_QL_TREE''}"
  then show "fst (calculate E params method oas sc s) = Inr (0, None)"
    by (simp add: calculate_def ql_tree_branch_def split_beta)
next
  assume "(method = ''HW_QL_TREE'' \<and>
          ql_tree_clean E HullWhite (fst (make_ts_with_oas oas s)) params = Inl e) \<or>
        (method = ''CIR_QL_TREE'' \<and>
          ql_tree_clean E ExtendedCoxIngersollRoss (fst (make_ts_with_oas oas s)) params = Inl e) \<or>
        (method = ''KWF_QL_TREE'' \<and>
          ql_tree_clean E BlackKarasinski (fst (make_ts_with_oas oas s)) params = Inl e)"
  then show "fst (calculate E params method oas sc s) = Inr (0, None)"
    by (elim disjE conjE) (simp_all add: calculate_def ql_tree_branch_def split_beta)
qed


text \<open>
  The theorem at three concrete pricers: the upward repricing raises, the downward
  repricing raises, both succeed.
\<close>

theorem metrics_restores_link_witness:
  "fst (metrics (demo_collaborators up_fails) (demo_config 1) () ''STRAIGHT BOND'' 0 None False demo_state)
      = Inl RuntimeError
   \<and> ts_base_link (snd (metrics (demo_collaborators up_fails) (demo_config 1) () ''STRAIGHT BOND'' 0 None
        False demo_state)) = MarketCurve 0
   \<and> fst (metrics (demo_collaborators down_fails) (demo_config 1) () ''STRAIGHT BOND'' 0 None False demo_state)
      = Inl RuntimeError
   \<and> ts_base_link (snd (metrics (demo_collaborators down_fails) (demo_config 1) () ''STRAIGHT BOND'' 0 None
        False demo_state)) = MarketCurve 0
   \<and> \<not> isl (fst (metrics (demo_collaborators flat_price) (demo_config 1) () ''STRAIGHT BOND'' 0 None False
        demo_state))
   \<and> ts_base_link (snd (metrics (demo_collaborators flat_price) (demo_config 1) () ''STRAIGHT BOND'' 0 None
        False demo_state)) = MarketCurve 0"
proof -
  have p: "(1::real) / 10 ^ 8 < 100" by simp
  have d: "\<not> \<bar>bump_size (demo_config 1)\<bar> < 1 / 10 ^ 12"
    by (simp add: bump_size_def demo_config_def)
  have b0: "fst (calculate (demo_collaborators up_fails) () ''STRAIGHT BOND'' 0 None demo_state) = Inr (100, None)"
    by (simp add: calculate_def make_ts_with_oas_def demo_collaborators_def demo_state_def)
  have b1: "fst (calculate (demo_collaborators down_fails) () ''STRAIGHT BOND'' 0 None demo_state) = Inr (100, None)"
    by (simp add: calculate_def make_ts_with_oas_def demo_collaborators_def demo_state_def)
  have b2: "fst (calculate (demo_collaborators flat_price) () ''STRAIGHT BOND'' 0 None demo_state) = Inr (100, None)"
    by (simp add: calculate_def make_ts_with_oas_def demo_collaborators_def demo_state_def)
  have bsz: "bump_size (demo_config 1) = 1 / 10000"
    by (simp add: bump_size_def demo_config_def)
  show ?thesis
    using metrics_restores_link [OF b0 p d, of False]
          metrics_restores_link [OF b1 p d, of False]
          metrics_restores_link [OF b2 p d, of False]
    by (simp add: bump_and_reprice_result calculate_def make_ts_with_oas_def
          demo_collaborators_def demo_state_def bsz)
qed


text \<open>
  The three cases at concrete inputs: a bump of one basis point (duration 10, convexity
  1000), a zero bump, and a method that prices to zero.
\<close>

theorem metrics_formulas_witness:
  "fst (metrics (demo_collaborators flat_price) (demo_config 1) () ''CIR_PDE'' 0 None False demo_state)
      = Inr (Metrics3 100 10 1000)
   \<and> fst (metrics (demo_collaborators flat_price) (demo_config 1) () ''CIR_PDE'' 0 None True demo_state)
      = Inr (Metrics4 100 10 1000 (Some 7))
   \<and> fst (metrics (demo_collaborators flat_price) (demo_config 0) () ''CIR_PDE'' 0 None False demo_state)
      = Inr (Metrics3 100 0 0)
   \<and> fst (metrics (demo_collaborators flat_price) (demo_config 1) () ''BK_MANUAL'' 0 None False demo_state)
      = Inr (Metrics3 0 0 0)"
proof -
  have b: "fst (calculate (demo_collaborators flat_price) () ''CIR_PDE'' 0 None demo_state)
             = Inr (100, Some 7)"
    by (simp add: calculate_def make_ts_with_oas_def to_clean_def demo_collaborators_def demo_state_def)
  have z: "fst (calculate (demo_collaborators flat_price) () ''BK_MANUAL'' 0 None demo_state)
             = Inr (0, None)"
    by (simp add: calculate_def make_ts_with_oas_def ql_tree_branch_def demo_collaborators_def
          demo_state_def)
  have up: "fst (calculate (demo_collaborators flat_price) () ''CIR_PDE'' 0 (Some 7)
              (demo_state\<lparr>ts_base_link := ZeroSpreaded (ts_base_link demo_state) (bump_size (demo_config 1))\<rparr>))
             = Inr (100 - 1000 / 10000 + 50000 / 10000\<^sup>2, Some 7)"
    by (simp add: calculate_def make_ts_with_oas_def to_clean_def demo_collaborators_def demo_state_def
          bump_size_def demo_config_def power2_eq_square)
  have dn: "fst (calculate (demo_collaborators flat_price) () ''CIR_PDE'' 0 (Some 7)
              (demo_state\<lparr>ts_base_link := ZeroSpreaded (ts_base_link demo_state) (- bump_size (demo_config 1))\<rparr>))
             = Inr (100 + 1000 / 10000 + 50000 / 10000\<^sup>2, Some 7)"
    by (simp add: calculate_def make_ts_with_oas_def to_clean_def demo_collaborators_def demo_state_def
          bump_size_def demo_config_def power2_eq_square)
  have s1: "bump_size (demo_config 1) = 1 / 10000" and s0: "bump_size (demo_config 0) = 0"
    by (simp_all add: bump_size_def demo_config_def)
  show ?thesis
    using metrics_formulas [OF b, where cfg = "demo_config 1" and rs = False
            and Pup = "100 - 1000 / 10000 + 50000 / 10000\<^sup>2" and cu = "Some 7"
            and Pdn = "100 + 1000 / 10000 + 50000 / 10000\<^sup>2" and cd = "Some 7"]
          metrics_formulas [OF b, where cfg = "demo_config 1" and rs = True
            and Pup = "100 - 1000 / 10000 + 50000 / 10000\<^sup>2" and cu = "Some 7"
            and Pdn = "100 + 1000 / 10000 + 50000 / 10000\<^sup>2" and cd = "Some 7"]
          metrics_formulas [OF b, where cfg = "demo_config 0" and rs = False
            and Pup = 0 and cu = None and Pdn = 0 and cd = None]
          metrics_formulas [OF z, where cfg = "demo_config 1" and rs = False
            and Pup = 0 and cu = None and Pdn = 0 and cd = None]
          up dn
    by (simp add: s1 s0 pack_def power2_eq_square)
qed

text \<open>
  The method names used by the driver and the smoke test for the manual tree and its
  reference tree are not recognised; a failing Hull-White reference tree prices to zero.
\<close>

theorem calculate_unrecognised_method_witness:
  "fst (calculate (demo_collaborators flat_price) () ''BK_MANUAL'' 0 None demo_state) = Inr (0, None)
   \<and> fst (calculate (demo_collaborators flat_price) () ''BK_QL_TREE'' (9 / 1000) (Some 3) demo_state)
        = Inr (0, None)
   \<and> fst (calculate (demo_collaborators flat_price) () ''HW_QL_TREE'' 0 None demo_state) = Inr (0, None)"
proof -
  have u1: "''BK_MANUAL'' \<notin> {''STRAIGHT BOND'', ''HW_LSMC'', ''CIR_PDE'', ''KWF_MANUAL'',
                ''HW_QL_TREE'', ''CIR_QL_TREE'', ''KWF_QL_TREE''}"
    by simp
  have u2: "''BK_QL_TREE'' \<notin> {''STRAIGHT BOND'', ''HW_LSMC'', ''CIR_PDE'', ''KWF_MANUAL'',
                ''HW_QL_TREE'', ''CIR_QL_TREE'', ''KWF_QL_TREE''}"
    by simp
  have f: "ql_tree_clean (demo_collaborators flat_price) HullWhite
             (fst (make_ts_with_oas 0 demo_state)) () = Inl RuntimeError"
    by (simp add: demo_collaborators_def)
  show ?thesis
    using calculate_unrecognised_method
            [of "''BK_MANUAL''" "demo_collaborators flat_price" "()" 0 None demo_state]
          calculate_unrecognised_method
            [of "''BK_QL_TREE''" "demo_collaborators flat_price" "()" "9 / 1000" "Some 3" demo_state]
          calculate_unrecognised_method
            [of "''HW_QL_TREE''" "demo_collaborators flat_price" "()" 0 None demo_state
                RuntimeError]
          u1 u2 f
    by simp
qed

section \<open>The trinomial tree engine (bk_tree.py)\<close>

text \<open>Python's \<open>int(x)\<close> on a float truncates towards zero.\<close>

definition py_int :: "real \<Rightarrow> int" where
  "py_int x = (if 0 \<le> x then \<lfloor>x\<rfloor> else \<lceil>x\<rceil>)"

text \<open>\<open>np.round\<close> (and Python's \<open>round\<close>) round to the nearest integer, ties to the even one.\<close>

definition np_round :: "real \<Rightarrow> int" where
  "np_round x =
     (let f = \<lfloor>x\<rfloor>; d = x - of_int f
      in if d < 1 / 2 then f
         else if 1 / 2 < d then f + 1
         else if even f then f else f + 1)"

text \<open>
  The geometry cached between bumps, computed when no cache is supplied. \<open>bk_steps_year\<close>
  is the configuration attribute the engine reads; \<open>None\<close> is an absent attribute, and a
  zero makes the division \<open>1.0 / float(cfg.bk_steps_year)\<close> raise.
\<close>

record tree_cache =
  tc_dt :: real
  tc_dx :: real
  tc_N :: int
  tc_j_max :: int

definition tree_geometry :: "real option \<Rightarrow> real \<Rightarrow> real \<Rightarrow> real \<Rightarrow> error + tree_cache" where
  "tree_geometry bk_steps_year a sigma T =
     (case bk_steps_year of
        None \<Rightarrow> Inl AttributeError
      | Some spy \<Rightarrow>
          if spy = 0 then Inl ZeroDivisionError
          else
            (let dt = 1 / spy;
                 dx = sigma * sqrt (3 * dt);
                 N = py_int (T / dt) + 2;
                 j_max = (if 1 / 10 ^ 12 < a then min (py_int (6 / (a * dt)) + 1) 150 else 150)
             in Inr \<lparr>tc_dt = dt, tc_dx = dx, tc_N = N, tc_j_max = j_max\<rparr>))"

text \<open>\<open>js = np.arange(-j_max, j_max + 1)\<close>, for a non-negative \<open>j_max\<close>.\<close>

definition js_of :: "nat \<Rightarrow> int list" where
  "js_of j_max = map (\<lambda>n. int n - int j_max) [0..<2 * j_max + 1]"

text \<open>
  One entry of \<open>tree\<close>: the arrays \<open>k\<close>, \<open>pu\<close>, \<open>pm\<close>, \<open>pd\<close> over the nodes, computed
  elementwise from \<open>js\<close>.
\<close>

record branching =
  br_k :: "int list"
  br_pu :: "real list"
  br_pm :: "real list"
  br_pd :: "real list"

definition drift_ratio :: "real \<Rightarrow> real \<Rightarrow> real \<Rightarrow> int \<Rightarrow> real" where
  "drift_ratio a dx dt j = (- a * of_int j * dx) * dt / dx"

definition node_k :: "real \<Rightarrow> real \<Rightarrow> real \<Rightarrow> int \<Rightarrow> int" where
  "node_k a dx dt j = np_round (drift_ratio a dx dt j)"

definition node_pu :: "real \<Rightarrow> real \<Rightarrow> real \<Rightarrow> int \<Rightarrow> real" where
  "node_pu a dx dt j =
     1 / 6 + 1 / 2 * ((drift_ratio a dx dt j - of_int (node_k a dx dt j))\<^sup>2
                      + (drift_ratio a dx dt j - of_int (node_k a dx dt j)))"

definition node_pd :: "real \<Rightarrow> real \<Rightarrow> real \<Rightarrow> int \<Rightarrow> real" where
  "node_pd a dx dt j =
     1 / 6 + 1 / 2 * ((drift_ratio a dx dt j - of_int (node_k a dx dt j))\<^sup>2
                      - (drift_ratio a dx dt j - of_int (node_k a dx dt j)))"

definition node_pm :: "real \<Rightarrow> real \<Rightarrow> real \<Rightarrow> int \<Rightarrow> real" where
  "node_pm a dx dt j = 1 - node_pu a dx dt j - node_pd a dx dt j"

definition step_branching :: "real \<Rightarrow> real \<Rightarrow> real \<Rightarrow> int list \<Rightarrow> branching" where
  "step_branching a dx dt js =
     \<lparr>br_k = map (node_k a dx dt) js,
      br_pu = map (node_pu a dx dt) js,
      br_pm = map (node_pm a dx dt) js,
      br_pd = map (node_pd a dx dt) js\<rparr>"

text \<open>\<open>tree\<close>: one entry for each \<open>i\<close> in \<open>range(N - 1)\<close>.\<close>

definition build_tree :: "real \<Rightarrow> real \<Rightarrow> real \<Rightarrow> nat \<Rightarrow> nat \<Rightarrow> branching list" where
  "build_tree a dx dt j_max N = map (\<lambda>i. step_branching a dx dt (js_of j_max)) [0..<N - 1]"

text \<open>
  The forward calibration. \<open>Q\<close> holds the state prices and \<open>alpha\<close> the level shifts;
  \<open>zc\<close> holds the curve's discount factors \<open>discount((i + 1) * dt)\<close>. \<open>mask = Q > 1e-16\<close>
  selects the nodes reached so far: \<open>masked Q\<close> are their indices, in increasing order,
  that is \<open>np.where(mask)[0]\<close>.
\<close>

definition masked :: "real list \<Rightarrow> nat list" where
  "masked Q = filter (\<lambda>j. 1 / 10 ^ 16 < Q ! j) [0..<length Q]"

text \<open>The objective handed to the root finder at step \<open>i\<close>.\<close>

definition obj :: "real list \<Rightarrow> int list \<Rightarrow> real \<Rightarrow> real \<Rightarrow> real \<Rightarrow> real \<Rightarrow> real" where
  "obj Q js dx dt zc_i val =
     sum_list (map (\<lambda>j. Q ! j * exp (- exp (val + of_int (js ! j) * dx) * dt)) (masked Q)) - zc_i"

text \<open>
  \<open>optimize.brentq(obj, -12.0, 12.0, xtol=1e-12)\<close> is a parameter: it returns a root or
  raises. The \<open>except\<close> clause turns every exception into the fallback value.
\<close>

type_synonym root_finder = "(real \<Rightarrow> real) \<Rightarrow> real \<Rightarrow> real \<Rightarrow> error + real"

definition solve_alpha ::
  "root_finder \<Rightarrow> real list \<Rightarrow> int list \<Rightarrow> real \<Rightarrow> real \<Rightarrow> real list \<Rightarrow> real list \<Rightarrow> nat
     \<Rightarrow> real" where
  "solve_alpha brentq Q js dx dt zc alpha i =
     (case brentq (obj Q js dx dt (zc ! i)) (- 12) 12 of
        Inr r \<Rightarrow> r
      | Inl e \<Rightarrow> (if 0 < i then alpha ! (i - 1) else ln (5 / 100)))"

text \<open>\<open>Q_n[p] += v\<close> under the guard \<open>0 <= p < len(Q)\<close>.\<close>

definition add_at :: "real list \<Rightarrow> int \<Rightarrow> real \<Rightarrow> real list" where
  "add_at q p v = (if 0 \<le> p \<and> p < int (length q) then q[nat p := q ! nat p + v] else q)"

text \<open>The body of \<open>for j in idx\<close>: the middle, upper and lower branch of node \<open>j\<close>.\<close>

definition push_node :: "branching \<Rightarrow> real list \<Rightarrow> real list \<Rightarrow> nat \<Rightarrow> real list" where
  "push_node b w Q_n j =
     (let kk = br_k b ! j;
          demo_propagate = add_at Q_n (int j + kk) (w ! j * br_pm b ! j);
          q2 = add_at demo_propagate (int j + kk + 1) (w ! j * br_pu b ! j)
      in add_at q2 (int j + kk - 1) (w ! j * br_pd b ! j))"

definition propagate ::
  "branching \<Rightarrow> int list \<Rightarrow> real \<Rightarrow> real \<Rightarrow> real \<Rightarrow> real list \<Rightarrow> real list" where
  "propagate b js dx dt alpha_i Q =
     (let Q_n = replicate (length Q) 0;
          w = map (\<lambda>j. Q ! j * exp (- exp (alpha_i + of_int (js ! j) * dx) * dt)) [0..<length Q]
      in foldl (push_node b w) Q_n (masked Q))"

text \<open>One iteration of the calibration loop, past the test of the mask.\<close>

definition calibrate_step ::
  "root_finder \<Rightarrow> branching list \<Rightarrow> int list \<Rightarrow> real \<Rightarrow> real \<Rightarrow> real list \<Rightarrow> nat
     \<Rightarrow> real list \<times> real list \<Rightarrow> real list \<times> real list" where
  "calibrate_step brentq tree js dx dt zc i st =
     (case st of (Q, alpha) \<Rightarrow>
        (let alpha' = alpha[i := solve_alpha brentq Q js dx dt zc alpha i]
         in (propagate (tree ! i) js dx dt (alpha' ! i) Q, alpha')))"

text \<open>
  The loop \<open>for i in range(N - 1)\<close> from the index \<open>i\<close> on, with \<open>m\<close> iterations left;
  it breaks when no node is masked.
\<close>

fun calibrate_loop ::
  "root_finder \<Rightarrow> branching list \<Rightarrow> int list \<Rightarrow> real \<Rightarrow> real \<Rightarrow> real list \<Rightarrow> nat \<Rightarrow> nat
     \<Rightarrow> real list \<times> real list \<Rightarrow> real list \<times> real list" where
  "calibrate_loop brentq tree js dx dt zc 0 i st = st"
| "calibrate_loop brentq tree js dx dt zc (Suc m) i st =
     (if masked (fst st) = [] then st
      else calibrate_loop brentq tree js dx dt zc m (Suc i)
             (calibrate_step brentq tree js dx dt zc i st))"

text \<open>
  The forward calibration of \<open>price\<close>: \<open>Q\<close> starts as the unit mass at the central node,
  \<open>alpha\<close> as zeros, and the loop runs \<open>N - 1\<close> times. It returns \<open>(Q, alpha)\<close>.
\<close>

definition forward_calibration ::
  "root_finder \<Rightarrow> (real \<Rightarrow> real) \<Rightarrow> real \<Rightarrow> real \<Rightarrow> real \<Rightarrow> nat \<Rightarrow> nat
     \<Rightarrow> real list \<times> real list" where
  "forward_calibration brentq discount a dx dt j_max N =
     (let Q = (replicate (2 * j_max + 1) 0)[j_max := 1];
          alpha = replicate N 0;
          js = js_of j_max;
          zc = map (\<lambda>i. discount (real (i + 1) * dt)) [0..<N];
          tree = build_tree a dx dt j_max N
      in calibrate_loop brentq tree js dx dt zc (N - 1) 0 (Q, alpha))"

text \<open>A root finder that raises on every call, as \<open>brentq\<close> does when the bracket has no sign change.\<close>

definition always_fails :: root_finder where
  "always_fails f lo hi = Inl ValueError"

subsection \<open>Properties of the tree engine\<close>

lemma np_round_residual: "\<bar>x - of_int (np_round x)\<bar> \<le> 1 / 2"
proof -
  have "of_int \<lfloor>x\<rfloor> \<le> x" "x < of_int \<lfloor>x\<rfloor> + 1" by linarith+
  then show ?thesis by (auto simp: np_round_def Let_def)
qed

lemma trinomial_bounds:
  fixes e :: real
  assumes "\<bar>e\<bar> \<le> 1 / 2"
  shows "0 \<le> 1 / 6 + 1 / 2 * (e\<^sup>2 + e)" and "0 \<le> 1 / 6 + 1 / 2 * (e\<^sup>2 - e)"
    and "0 \<le> 1 - (1 / 6 + 1 / 2 * (e\<^sup>2 + e)) - (1 / 6 + 1 / 2 * (e\<^sup>2 - e))"
proof -
  define q where "q = e\<^sup>2"
  have "0 \<le> (e + 1 / 2)\<^sup>2" and "0 \<le> (e - 1 / 2)\<^sup>2" by simp_all
  then have a: "0 \<le> q + e + 1 / 4" and b: "0 \<le> q - e + 1 / 4"
    by (simp_all add: q_def power2_eq_square algebra_simps)
  have "e\<^sup>2 \<le> (1 / 2)\<^sup>2"
    using assms by (intro abs_le_square_iff [THEN iffD1]) simp
  then have c: "q \<le> 1 / 4" by (simp add: q_def power2_eq_square)
  show "0 \<le> 1 / 6 + 1 / 2 * (e\<^sup>2 + e)"
    unfolding q_def [symmetric] using a by (simp add: field_simps)
  show "0 \<le> 1 / 6 + 1 / 2 * (e\<^sup>2 - e)"
    unfolding q_def [symmetric] using b by (simp add: field_simps)
  show "0 \<le> 1 - (1 / 6 + 1 / 2 * (e\<^sup>2 + e)) - (1 / 6 + 1 / 2 * (e\<^sup>2 - e))"
    unfolding q_def [symmetric] using c by (simp add: field_simps)
qed

lemma tree_geometry_spacing:
  "tree_geometry bk_steps_year a sigma T = Inr g \<Longrightarrow>
     tc_dx g = sigma * sqrt (3 * tc_dt g) \<and> tc_dt g \<noteq> 0"
  by (auto simp: tree_geometry_def Let_def split: option.splits if_splits)

lemma build_tree_nth:
  "i < length (build_tree a dx dt j_max N) \<Longrightarrow>
     build_tree a dx dt j_max N ! i = step_branching a dx dt (js_of j_max)"
  by (simp add: build_tree_def)

text \<open>
  C7. For every step \<open>i\<close> of the tree and every node \<open>n\<close>, when \<open>a \<ge> 0\<close>, \<open>sigma > 0\<close>,
  \<open>dt > 0\<close> and \<open>dx = sigma sqrt(3 dt)\<close>: the branching probabilities \<open>pu\<close>, \<open>pm\<close>, \<open>pd\<close>
  are non-negative and sum to one, the ratio \<open>mu dt / dx\<close> is \<open>-a j dt\<close>, the branch
  offset \<open>k\<close> is that ratio rounded to the nearest integer, and the residual
  \<open>mu dt / dx - k\<close> lies within \<open>[-1/2, 1/2]\<close>. The arithmetic is that of the reals.
\<close>

theorem tree_probabilities_valid:
  assumes "0 \<le> a" and "0 < sigma" and "0 < dt" and "dx = sigma * sqrt (3 * dt)"
    and "i < length (build_tree a dx dt j_max N)" and "n < length (js_of j_max)"
  shows "0 \<le> br_pu (build_tree a dx dt j_max N ! i) ! n
     \<and> 0 \<le> br_pm (build_tree a dx dt j_max N ! i) ! n
     \<and> 0 \<le> br_pd (build_tree a dx dt j_max N ! i) ! n
     \<and> br_pu (build_tree a dx dt j_max N ! i) ! n + br_pm (build_tree a dx dt j_max N ! i) ! n
         + br_pd (build_tree a dx dt j_max N ! i) ! n = 1
     \<and> drift_ratio a dx dt (js_of j_max ! n) = - a * of_int (js_of j_max ! n) * dt
     \<and> br_k (build_tree a dx dt j_max N ! i) ! n = np_round (drift_ratio a dx dt (js_of j_max ! n))
     \<and> \<bar>drift_ratio a dx dt (js_of j_max ! n) - of_int (br_k (build_tree a dx dt j_max N ! i) ! n)\<bar>
         \<le> 1 / 2"
proof -
  let ?j = "js_of j_max ! n"
  let ?e = "drift_ratio a dx dt ?j - of_int (node_k a dx dt ?j)"
  have dx: "dx \<noteq> 0" using assms(2,3,4) by simp
  have e: "\<bar>?e\<bar> \<le> 1 / 2" unfolding node_k_def by (rule np_round_residual)
  have t: "build_tree a dx dt j_max N ! i = step_branching a dx dt (js_of j_max)"
    using assms(5) by (rule build_tree_nth)
  have pu: "br_pu (build_tree a dx dt j_max N ! i) ! n = 1 / 6 + 1 / 2 * (?e\<^sup>2 + ?e)"
    using assms(6) by (simp add: t step_branching_def node_pu_def)
  have pd: "br_pd (build_tree a dx dt j_max N ! i) ! n = 1 / 6 + 1 / 2 * (?e\<^sup>2 - ?e)"
    using assms(6) by (simp add: t step_branching_def node_pd_def)
  have pm: "br_pm (build_tree a dx dt j_max N ! i) ! n =
      1 - (1 / 6 + 1 / 2 * (?e\<^sup>2 + ?e)) - (1 / 6 + 1 / 2 * (?e\<^sup>2 - ?e))"
    using assms(6) by (simp add: t step_branching_def node_pm_def node_pu_def node_pd_def)
  have k: "br_k (build_tree a dx dt j_max N ! i) ! n = node_k a dx dt ?j"
    using assms(6) by (simp add: t step_branching_def)
  have r: "drift_ratio a dx dt ?j = - a * of_int ?j * dt"
    using dx by (simp add: drift_ratio_def)
  show ?thesis
    unfolding pu pd pm k
    using trinomial_bounds [OF e] e r by (simp add: node_k_def)
qed


text \<open>
  At \<open>a = 1\<close>, \<open>sigma = 1\<close>, \<open>dt = 1/3\<close> the node \<open>j = 2\<close> has the ratio \<open>-2/3\<close>, the
  offset \<open>-1\<close> and the probabilities \<open>7/18\<close>, \<open>5/9\<close>, \<open>1/18\<close>.
\<close>

theorem tree_probabilities_valid_witness:
  "br_k (build_tree 1 1 (1 / 3) 2 3 ! 0) ! 4 = - 1
   \<and> br_pu (build_tree 1 1 (1 / 3) 2 3 ! 0) ! 4 = 7 / 18
   \<and> br_pm (build_tree 1 1 (1 / 3) 2 3 ! 0) ! 4 = 5 / 9
   \<and> br_pd (build_tree 1 1 (1 / 3) 2 3 ! 0) ! 4 = 1 / 18
   \<and> \<bar>drift_ratio 1 1 (1 / 3) (js_of 2 ! 4) - of_int (br_k (build_tree 1 1 (1 / 3) 2 3 ! 0) ! 4)\<bar>
        \<le> 1 / 2"
proof -
  have j: "js_of 2 ! 4 = 2" by (simp add: js_of_def)
  have l: "length (js_of 2) = 5" by (simp add: js_of_def)
  have d: "drift_ratio 1 1 (1 / 3) 2 = - 2 / 3" by (simp add: drift_ratio_def)
  have k: "node_k 1 1 (1 / 3) 2 = - 1" by (simp add: node_k_def d np_round_def Let_def)
  have t: "build_tree 1 1 (1 / 3) 2 3 ! 0 = step_branching 1 1 (1 / 3) (js_of 2)"
    by (rule build_tree_nth) (simp add: build_tree_def)
  have vals: "br_k (build_tree 1 1 (1 / 3) 2 3 ! 0) ! 4 = - 1
      \<and> br_pu (build_tree 1 1 (1 / 3) 2 3 ! 0) ! 4 = 7 / 18
      \<and> br_pm (build_tree 1 1 (1 / 3) 2 3 ! 0) ! 4 = 5 / 9
      \<and> br_pd (build_tree 1 1 (1 / 3) 2 3 ! 0) ! 4 = 1 / 18"
    by (simp add: t step_branching_def l j k d node_pu_def node_pm_def node_pd_def
          power2_eq_square)
  have h1: "(0::real) \<le> 1" and h2: "(0::real) < 1" and h3: "(0::real) < 1 / 3"
    and h4: "(1::real) = 1 * sqrt (3 * (1 / 3))"
    and h5: "0 < length (build_tree 1 1 (1 / 3) 2 3)" and h6: "4 < length (js_of 2)"
    by (simp_all add: build_tree_def l)
  have "\<bar>drift_ratio 1 1 (1 / 3) (js_of 2 ! 4)
          - of_int (br_k (build_tree 1 1 (1 / 3) 2 3 ! 0) ! 4)\<bar> \<le> 1 / 2"
    using tree_probabilities_valid [OF h1 h2 h3 h4 h5 h6] by blast
  with vals show ?thesis by simp
qed


lemma calibrate_step_alpha:
  "snd (calibrate_step brentq tree js dx dt zc i (Q, alpha)) =
     alpha[i := solve_alpha brentq Q js dx dt zc alpha i]"
  by (simp add: calibrate_step_def Let_def)

lemma calibrate_loop_length:
  "length (snd (calibrate_loop brentq tree js dx dt zc m i st)) = length (snd st)"
proof (induction m arbitrary: i st)
  case 0
  show ?case by simp
next
  case (Suc m)
  obtain Q alpha where st: "st = (Q, alpha)" by (cases st)
  show ?case using Suc [of "Suc i" "calibrate_step brentq tree js dx dt zc i st"]
    by (simp add: st calibrate_step_alpha)
qed

lemma calibrate_loop_keeps_earlier:
  "i < i' \<Longrightarrow> snd (calibrate_loop brentq tree js dx dt zc m i' st) ! i = snd st ! i"
proof (induction m arbitrary: i' st)
  case 0
  show ?case by simp
next
  case (Suc m)
  obtain Q alpha where st: "st = (Q, alpha)" by (cases st)
  have "snd (calibrate_loop brentq tree js dx dt zc m (Suc i')
               (calibrate_step brentq tree js dx dt zc i' st)) ! i =
        snd (calibrate_step brentq tree js dx dt zc i' st) ! i"
    using Suc.prems by (intro Suc.IH) simp
  also have "\<dots> = snd st ! i"
    using Suc.prems by (simp add: st calibrate_step_alpha)
  finally show ?case by simp
qed

text \<open>
  C8. When the root finder raises at a step \<open>i\<close> that the calibration loop reaches, the
  loop does not stop: it stores in \<open>alpha[i]\<close> the previous step's \<open>alpha[i - 1]\<close> when
  \<open>i > 0\<close> and \<open>log(0.05)\<close> at step 0, propagates \<open>Q\<close> with that level and goes on with
  step \<open>i + 1\<close>; the value stored at \<open>i\<close> is the one the finished calibration returns.
\<close>

theorem calibration_fallback:
  assumes "masked Q \<noteq> []" and "i < length alpha"
    and "brentq (obj Q js dx dt (zc ! i)) (- 12) 12 = Inl e"
  shows "calibrate_loop brentq tree js dx dt zc (Suc m) i (Q, alpha) =
           calibrate_loop brentq tree js dx dt zc m (Suc i)
             (propagate (tree ! i) js dx dt (if 0 < i then alpha ! (i - 1) else ln (5 / 100)) Q,
              alpha[i := (if 0 < i then alpha ! (i - 1) else ln (5 / 100))])
     \<and> snd (calibrate_loop brentq tree js dx dt zc (Suc m) i (Q, alpha)) ! i =
           (if 0 < i then alpha ! (i - 1) else ln (5 / 100))
     \<and> length (snd (calibrate_loop brentq tree js dx dt zc (Suc m) i (Q, alpha))) = length alpha"
proof -
  let ?v = "if 0 < i then alpha ! (i - 1) else ln (5 / 100)"
  have sa: "solve_alpha brentq Q js dx dt zc alpha i = ?v"
    using assms(3) by (simp add: solve_alpha_def)
  have step: "calibrate_step brentq tree js dx dt zc i (Q, alpha) =
      (propagate (tree ! i) js dx dt ?v Q, alpha[i := ?v])"
    using assms(2) by (simp add: calibrate_step_def Let_def sa)
  have unfold: "calibrate_loop brentq tree js dx dt zc (Suc m) i (Q, alpha) =
      calibrate_loop brentq tree js dx dt zc m (Suc i)
        (propagate (tree ! i) js dx dt ?v Q, alpha[i := ?v])"
    using assms(1) by (simp add: step)
  have "snd (calibrate_loop brentq tree js dx dt zc (Suc m) i (Q, alpha)) ! i =
        snd (calibrate_loop brentq tree js dx dt zc m (Suc i)
               (propagate (tree ! i) js dx dt ?v Q, alpha[i := ?v])) ! i"
    by (simp only: unfold)
  also have "\<dots> = snd (propagate (tree ! i) js dx dt ?v Q, alpha[i := ?v]) ! i"
    by (rule calibrate_loop_keeps_earlier) simp
  also have "\<dots> = ?v"
    using assms(2) by (simp only: snd_conv nth_list_update_eq)
  finally have kept:
    "snd (calibrate_loop brentq tree js dx dt zc (Suc m) i (Q, alpha)) ! i = ?v" .
  have len: "length (snd (calibrate_loop brentq tree js dx dt zc (Suc m) i (Q, alpha))) = length alpha"
    by (simp only: calibrate_loop_length snd_conv)
  from unfold kept len show ?thesis by (intro conjI)
qed


lemma js_of_one: "js_of 1 = [- 1, 0, 1]"
  by (simp add: js_of_def upt_rec)

lemma demo_tree_first: "build_tree 1 1 (1 / 3) 1 3 ! 0 = step_branching 1 1 (1 / 3) (js_of 1)"
  by (rule build_tree_nth) (simp add: build_tree_def)

lemma demo_step_branching: "step_branching 1 1 (1 / 3) [- 1, 0, 1] =
   \<lparr>br_k = [0, 0, 0], br_pu = [7/18, 1/6, 1/18], br_pm = [5/9, 2/3, 5/9], br_pd = [1/18, 1/6, 7/18]\<rparr>"
  by (simp add: step_branching_def node_k_def node_pu_def node_pm_def node_pd_def drift_ratio_def
        np_round_def Let_def power2_eq_square)

lemma masked_unit_mass: "masked [0, 1, 0] = [1]"
  by (simp add: masked_def upt_rec)

lemma demo_propagate_explicit:
  "propagate \<lparr>br_k = [0, 0, 0], br_pu = [7/18, 1/6, 1/18], br_pm = [5/9, 2/3, 5/9],
      br_pd = [1/18, 1/6, 7/18]\<rparr> [- 1, 0, 1] 1 (1 / 3) (ln (5 / 100)) [0, 1, 0]
  = [exp (- (1 / 60)) * (1 / 6), exp (- (1 / 60)) * (2 / 3), exp (- (1 / 60)) * (1 / 6)]"
  by (simp add: propagate_def masked_unit_mass Let_def push_node_def add_at_def upt_rec)

lemma demo_propagate: "propagate (build_tree 1 1 (1 / 3) 1 3 ! 0) (js_of 1) 1 (1 / 3) (ln (5 / 100)) [0, 1, 0]
  = [exp (- (1 / 60)) * (1 / 6), exp (- (1 / 60)) * (2 / 3), exp (- (1 / 60)) * (1 / 6)]"
  by (simp only: demo_tree_first js_of_one demo_step_branching demo_propagate_explicit)


lemma demo_propagate_masked:
  "masked [exp (- (1 / 60)) * (1 / 6), exp (- (1 / 60)) * (2 / 3), exp (- (1 / 60)) * (1 / 6 :: real)] \<noteq> []"
proof -
  have "1 + (- (1 / 60)) \<le> exp (- (1 / 60) :: real)" by (rule exp_ge_add_one_self)
  then have "1 / 10 ^ 16 < exp (- (1 / 60) :: real) * (2 / 3)" by simp
  then have "(1::nat) \<in> set (masked [exp (- (1 / 60)) * (1 / 6), exp (- (1 / 60)) * (2 / 3),
      exp (- (1 / 60)) * (1 / 6 :: real)])"
    by (simp add: masked_def)
  then show ?thesis by auto
qed

text \<open>
  With a root finder that always raises, a tree of three time levels is calibrated to
  the default at step 0 and to the previous level at step 1; the last entry of \<open>alpha\<close>
  is never solved for.
\<close>

theorem calibration_fallback_witness:
  "snd (forward_calibration always_fails (\<lambda>t. 1) 1 1 (1 / 3) 1 3) = [ln (5 / 100), ln (5 / 100), 0]"
proof -
  let ?T = "build_tree 1 1 (1 / 3) 1 3"
  let ?zc = "map (\<lambda>i. 1 :: real) [0..<3]"
  let ?Q1 = "[exp (- (1 / 60)) * (1 / 6), exp (- (1 / 60)) * (2 / 3), exp (- (1 / 60)) * (1 / 6 :: real)]"
  have start: "forward_calibration always_fails (\<lambda>t. 1) 1 1 (1 / 3) 1 3 =
      calibrate_loop always_fails ?T (js_of 1) 1 (1 / 3) ?zc (Suc (Suc 0)) 0 ([0, 1, 0], [0, 0, 0])"
    by (simp add: forward_calibration_def Let_def numeral_3_eq_3 numeral_2_eq_2)
  have a1: "masked [0, 1, 0 :: real] \<noteq> []" by (simp add: masked_unit_mass)
  have a2: "0 < length [0, 0, 0 :: real]" by simp
  have a3: "always_fails (obj [0, 1, 0] (js_of 1) 1 (1 / 3) (?zc ! 0)) (- 12) 12 = Inl ValueError"
    by (simp add: always_fails_def)
  have first: "calibrate_loop always_fails ?T (js_of 1) 1 (1 / 3) ?zc (Suc (Suc 0)) 0 ([0, 1, 0], [0, 0, 0]) =
      calibrate_loop always_fails ?T (js_of 1) 1 (1 / 3) ?zc (Suc 0) (Suc 0) (?Q1, [ln (5 / 100), 0, 0])"
    using calibration_fallback [where brentq = always_fails and Q = "[0, 1, 0]" and i = 0
        and alpha = "[0, 0, 0]" and js = "js_of 1" and dx = 1 and dt = "1 / 3" and zc = ?zc
        and e = ValueError and tree = ?T and m = "Suc 0", OF a1 a2 a3, THEN conjunct1]
    by (simp only: demo_propagate less_irrefl if_False list_update_code)
  have b2: "Suc 0 < length [ln (5 / 100), 0, 0 :: real]" by simp
  have b3: "always_fails (obj ?Q1 (js_of 1) 1 (1 / 3) (?zc ! Suc 0)) (- 12) 12 = Inl ValueError"
    by (simp add: always_fails_def)
  have second: "snd (calibrate_loop always_fails ?T (js_of 1) 1 (1 / 3) ?zc (Suc 0) (Suc 0)
      (?Q1, [ln (5 / 100), 0, 0])) = [ln (5 / 100), ln (5 / 100), 0]"
    using calibration_fallback [where brentq = always_fails and Q = ?Q1 and i = "Suc 0"
        and alpha = "[ln (5 / 100), 0, 0]" and js = "js_of 1" and dx = 1 and dt = "1 / 3"
        and zc = ?zc and e = ValueError and tree = ?T and m = 0, OF demo_propagate_masked b2 b3,
        THEN conjunct1]
    by (simp only: zero_less_Suc if_True diff_Suc_1 nth_Cons_0 list_update_code
          calibrate_loop.simps snd_conv)
  show ?thesis by (simp only: start first second)
qed

section \<open>The instrument as the engines see it\<close>

text \<open>
  The engines read the bond from the dictionary \<open>bond_data\<close> and turn its dates into times
  with QuantLib: \<open>ql.Schedule\<close> gives the coupon dates and the bond's day counter the
  year fractions from the valuation date. Dates are serial numbers. \<open>year_fraction d\<close> is
  \<open>time_dc.yearFraction(today, d)\<close>, \<open>schedule\<close> the dates of the schedule in order, and
  \<open>payments_per_year\<close> the result of \<open>DateUtils.payments_per_year\<close> for the coupon frequency.
\<close>

record instrument =
  face :: real
  coupon_rate :: real
  payments_per_year :: real
  today :: int
  maturity_date :: int
  schedule :: "int list"
  call_schedule :: "(int \<times> real) list"
  year_fraction :: "int \<Rightarrow> real"

definition coupon_amt :: "instrument \<Rightarrow> real" where
  "coupon_amt bd = face bd * coupon_rate bd / payments_per_year bd"

text \<open>A parameter dictionary; a missing key raises \<open>KeyError\<close>.\<close>

definition param :: "(string \<Rightarrow> real option) \<Rightarrow> string \<Rightarrow> error + real" where
  "param params key = (case params key of None \<Rightarrow> Inl KeyError | Some v \<Rightarrow> Inr v)"

section \<open>The PDE engine (cir_pde.py)\<close>

record pde_config =
  pde_shift_theta_with_curve :: "bool option"
  pde_r_min :: real
  pde_r_max :: real
  pde_grid_size :: int
  pde_steps_year :: int

text \<open>
  The state cache of the PDE engine is a dictionary with the one key \<open>r0_base\<close>, read with
  \<open>state_cache.get('r0_base', r0)\<close>: \<open>None\<close> is a dictionary without the key.
\<close>

record pde_cache =
  r0_base :: "real option"

text \<open>
  Lines 46 to 53 of \<open>price\<close>: the cache that the call works with and returns, and the
  long-run mean it uses. The flag is read with
  \<open>getattr(cfg, 'pde_shift_theta_with_curve', True)\<close>.
\<close>

definition cache_in_use :: "real \<Rightarrow> pde_cache option \<Rightarrow> pde_cache" where
  "cache_in_use r0 state_cache =
     (case state_cache of None \<Rightarrow> \<lparr>r0_base = Some r0\<rparr> | Some c \<Rightarrow> c)"

definition theta_effective :: "pde_config \<Rightarrow> real \<Rightarrow> real \<Rightarrow> pde_cache \<Rightarrow> real" where
  "theta_effective cfg theta_base r0 sc =
     (if (case pde_shift_theta_with_curve cfg of None \<Rightarrow> True | Some b \<Rightarrow> b) then
        (let r0_b = (case r0_base sc of None \<Rightarrow> r0 | Some x \<Rightarrow> x);
             spread_shock = r0 - r0_b
         in theta_base + spread_shock)
      else theta_base)"

text \<open>
  \<open>np.linspace(start, stop, num)\<close>: a negative \<open>num\<close> raises, and the last point is
  \<open>stop\<close> itself.
\<close>

definition linspace :: "real \<Rightarrow> real \<Rightarrow> int \<Rightarrow> error + real list" where
  "linspace start stop num =
     (if num < 0 then Inl ValueError
      else if num = 1 then Inr [start]
      else Inr (map (\<lambda>i. if int i = num - 1 then stop
                           else start + real i * ((stop - start) / real_of_int (num - 1)))
                  [0..<nat num]))"

text \<open>The coefficient arrays of the Crank-Nicolson scheme, elementwise over the grid \<open>r\<close>.\<close>

definition drift_at :: "real \<Rightarrow> real \<Rightarrow> real \<Rightarrow> real" where
  "drift_at k theta x = k * (theta - x)"

definition diff_at :: "real \<Rightarrow> real \<Rightarrow> real" where
  "diff_at sigma x = 1 / 2 * sigma\<^sup>2 * x"

definition coef_A :: "real \<Rightarrow> real \<Rightarrow> real \<Rightarrow> real \<Rightarrow> real \<Rightarrow> real list \<Rightarrow> real list" where
  "coef_A theta k sigma dr dt r =
     map (\<lambda>x. - (1 / 4) * dt * (diff_at sigma x / dr\<^sup>2 - drift_at k theta x / (2 * dr))) r"

definition coef_B :: "real \<Rightarrow> real \<Rightarrow> real \<Rightarrow> real list \<Rightarrow> real list" where
  "coef_B sigma dr dt r = map (\<lambda>x. 1 + 1 / 2 * dt * (x + diff_at sigma x / dr\<^sup>2)) r"

definition coef_C :: "real \<Rightarrow> real \<Rightarrow> real \<Rightarrow> real \<Rightarrow> real \<Rightarrow> real list \<Rightarrow> real list" where
  "coef_C theta k sigma dr dt r =
     map (\<lambda>x. - (1 / 4) * dt * (diff_at sigma x / dr\<^sup>2 + drift_at k theta x / (2 * dr))) r"

definition coef_R_sub :: "real \<Rightarrow> real \<Rightarrow> real \<Rightarrow> real \<Rightarrow> real \<Rightarrow> real list \<Rightarrow> real list" where
  "coef_R_sub theta k sigma dr dt r =
     map (\<lambda>x. 1 / 4 * dt * (diff_at sigma x / dr\<^sup>2 - drift_at k theta x / (2 * dr))) r"

definition coef_R_main :: "real \<Rightarrow> real \<Rightarrow> real \<Rightarrow> real list \<Rightarrow> real list" where
  "coef_R_main sigma dr dt r = map (\<lambda>x. 1 - 1 / 2 * dt * (x + diff_at sigma x / dr\<^sup>2)) r"

definition coef_R_sup :: "real \<Rightarrow> real \<Rightarrow> real \<Rightarrow> real \<Rightarrow> real \<Rightarrow> real list \<Rightarrow> real list" where
  "coef_R_sup theta k sigma dr dt r =
     map (\<lambda>x. 1 / 4 * dt * (diff_at sigma x / dr\<^sup>2 + drift_at k theta x / (2 * dr))) r"

text \<open>
  The boundary adjustment at \<open>r_min\<close>, on the arrays of the implicit operator:
  \<open>B[0] += 2.0 * A[0]; C[0] -= A[0]; A[0] = 0.0\<close>.
\<close>

definition lower_boundary ::
  "real list \<times> real list \<times> real list \<Rightarrow> real list \<times> real list \<times> real list" where
  "lower_boundary abc =
     (case abc of (A, B, C) \<Rightarrow>
        (let B1 = B[0 := B ! 0 + 2 * A ! 0];
             C1 = C[0 := C ! 0 - A ! 0];
             A1 = A[0 := 0]
         in (A1, B1, C1)))"

text \<open>
  \<open>sparse.diags([lower, main, upper], [-1, 0, 1])\<close> as a dense matrix, a list of rows, for
  diagonals of the lengths \<open>n - 1\<close>, \<open>n\<close>, \<open>n - 1\<close> that the engine passes.
\<close>

definition diags :: "real list \<Rightarrow> real list \<Rightarrow> real list \<Rightarrow> real list list" where
  "diags lower main upper =
     map (\<lambda>i. map (\<lambda>j. if j = i then main ! i
                        else if Suc j = i then lower ! j
                        else if j = Suc i then upper ! i
                        else 0)
                 [0..<length main])
         [0..<length main]"

text \<open>The two operators \<open>M_L\<close> and \<open>M_R\<close> built by lines 70 to 88.\<close>

definition cn_operators ::
  "real \<Rightarrow> real \<Rightarrow> real \<Rightarrow> real \<Rightarrow> real \<Rightarrow> real list \<Rightarrow> real list list \<times> real list list" where
  "cn_operators theta k sigma dr dt r =
     (case lower_boundary
             (coef_A theta k sigma dr dt r, coef_B sigma dr dt r, coef_C theta k sigma dr dt r) of
        (A, B, C) \<Rightarrow>
          (diags (tl A) B (butlast C),
           diags (tl (coef_R_sub theta k sigma dr dt r)) (coef_R_main sigma dr dt r)
                 (butlast (coef_R_sup theta k sigma dr dt r))))"

text \<open>\<open>M @ V\<close> for a dense matrix.\<close>

definition mat_vec :: "real list list \<Rightarrow> real list \<Rightarrow> real list" where
  "mat_vec M V = map (\<lambda>row. sum_list (map2 (*) row V)) M"

text \<open>\<open>np.interp(x, xp, fp)\<close> for increasing \<open>xp\<close>: linear inside, constant outside.\<close>

fun interp :: "real \<Rightarrow> real list \<Rightarrow> real list \<Rightarrow> real" where
  "interp x (x0 # x1 # xs) (y0 # y1 # ys) =
     (if x \<le> x0 then y0
      else if x < x1 then y0 + (x - x0) * ((y1 - y0) / (x1 - x0))
      else interp x (x1 # xs) (y1 # ys))"
| "interp x [x0] (y0 # ys) = y0"
| "interp x xs ys = 0"

text \<open>The coupons before maturity and the call events, as (time, amount) pairs.\<close>

definition pde_cashflows :: "instrument \<Rightarrow> (real \<times> real) list" where
  "pde_cashflows bd =
     map (\<lambda>d. (year_fraction bd d, coupon_amt bd))
       (filter (\<lambda>d. today bd < d \<and> d < maturity_date bd) (schedule bd))"

definition pde_call_events :: "instrument \<Rightarrow> (real \<times> real) list" where
  "pde_call_events bd =
     map (\<lambda>(cd, price). (year_fraction bd cd, price))
       (filter (\<lambda>(cd, price). \<not> cd \<le> today bd) (call_schedule bd))"

text \<open>The coupon searched for next to a call time: the first within two time steps.\<close>

fun coupon_near :: "(real \<times> real) list \<Rightarrow> real \<Rightarrow> real \<Rightarrow> real" where
  "coupon_near [] ct dt = 0"
| "coupon_near ((cft, amt) # cfs) ct dt =
     (if \<bar>cft - ct\<bar> < dt * 2 then amt else coupon_near cfs ct dt)"

definition coupon_jumps :: "(real \<times> real) list \<Rightarrow> real \<Rightarrow> real \<Rightarrow> real list \<Rightarrow> real list" where
  "coupon_jumps cfs curr_t prev_t V =
     foldl (\<lambda>V (ct, amt). if curr_t \<le> ct \<and> ct < prev_t then map (\<lambda>v. v + amt) V else V) V cfs"

definition call_obstacle ::
  "(real \<times> real) list \<Rightarrow> (real \<times> real) list \<Rightarrow> real \<Rightarrow> real \<Rightarrow> real \<Rightarrow> real list \<Rightarrow> real list" where
  "call_obstacle call_events cfs dt curr_t prev_t V =
     foldl (\<lambda>V (ct, call_price).
              if curr_t \<le> ct \<and> ct < prev_t
              then map (\<lambda>v. min v (call_price + coupon_near cfs ct dt)) V else V)
       V call_events"

text \<open>The backward solve: \<open>n\<close> time steps are left, the current time is \<open>curr_t\<close>.\<close>

fun backward_solve ::
  "(real list \<Rightarrow> real list) \<Rightarrow> real list list \<Rightarrow> (real \<times> real) list \<Rightarrow> (real \<times> real) list
     \<Rightarrow> real \<Rightarrow> nat \<Rightarrow> real \<Rightarrow> real list \<Rightarrow> real list" where
  "backward_solve solve M_R cfs call_events dt 0 curr_t V = V"
| "backward_solve solve M_R cfs call_events dt (Suc n) curr_t V =
     (let prev_t = curr_t;
          curr_t' = curr_t - dt;
          V1 = solve (mat_vec M_R V);
          V2 = coupon_jumps cfs curr_t' prev_t V1;
          V3 = call_obstacle call_events cfs dt curr_t' prev_t V2
      in backward_solve solve M_R cfs call_events dt n curr_t' V3)"

text \<open>
  \<open>price\<close>. \<open>r0\<close> is the zero rate \<open>ts_obj.zeroRate(0.001, ql.Continuous).rate()\<close> of the
  curve the engine is handed; \<open>splu\<close> stands for \<open>scipy.sparse.linalg.splu\<close>, which raises
  on a singular matrix and otherwise returns the solver.
\<close>

definition cir_pde_price ::
  "(real list list \<Rightarrow> error + (real list \<Rightarrow> real list)) \<Rightarrow> pde_config \<Rightarrow> real \<Rightarrow> instrument
     \<Rightarrow> (string \<Rightarrow> real option) \<Rightarrow> pde_cache option \<Rightarrow> error + (real \<times> pde_cache)" where
  "cir_pde_price splu cfg r0 bd params state_cache =
     (case param params ''theta'' of Inl e \<Rightarrow> Inl e | Inr theta_base \<Rightarrow>
      case param params ''k'' of Inl e \<Rightarrow> Inl e | Inr k \<Rightarrow>
      case param params ''sigma'' of Inl e \<Rightarrow> Inl e | Inr sigma \<Rightarrow>
        (let sc = cache_in_use r0 state_cache;
             theta = theta_effective cfg theta_base r0 sc
         in case linspace (pde_r_min cfg) (pde_r_max cfg) (pde_grid_size cfg) of
              Inl e \<Rightarrow> Inl e
            | Inr r \<Rightarrow>
                if length r < 2 then Inl IndexError
                else
                  (let dr = r ! 1 - r ! 0;
                       T = year_fraction bd (maturity_date bd);
                       Nt0 = py_int (T * real_of_int (pde_steps_year cfg));
                       Nt = (if Nt0 \<le> 2 then 3 else Nt0);
                       dt = T / real_of_int Nt;
                       (M_L, M_R) = cn_operators theta k sigma dr dt r
                   in case splu M_L of
                        Inl e \<Rightarrow> Inl e
                      | Inr solve \<Rightarrow>
                          (let V = map (\<lambda>x. face bd + coupon_amt bd) r;
                               V' = backward_solve solve M_R (pde_cashflows bd)
                                      (pde_call_events bd) dt (nat Nt) T V
                           in Inr (interp r0 r V', sc)))))"


text \<open>
  The number of time steps and the time step of \<open>price\<close> (lines 62 to 67), named for the
  statements below.
\<close>

definition pde_steps :: "pde_config \<Rightarrow> instrument \<Rightarrow> int" where
  "pde_steps cfg bd =
     (let Nt0 = py_int (year_fraction bd (maturity_date bd) * real_of_int (pde_steps_year cfg))
      in if Nt0 \<le> 2 then 3 else Nt0)"

definition pde_dt :: "pde_config \<Rightarrow> instrument \<Rightarrow> real" where
  "pde_dt cfg bd = year_fraction bd (maturity_date bd) / real_of_int (pde_steps cfg bd)"

text \<open>
  The long-run mean as the specification words it: the supplied mean plus the move of the
  curve's zero rate away from the cached base rate, unless the configuration switches the
  shift off. On a call without a cache, and for a cache without the entry, the base rate
  is the current rate.
\<close>

definition shifted_theta :: "pde_config \<Rightarrow> real \<Rightarrow> real \<Rightarrow> pde_cache option \<Rightarrow> real" where
  "shifted_theta cfg theta r0 state_cache =
     (if pde_shift_theta_with_curve cfg = Some False then theta
      else theta + (r0 - (case state_cache of
                            None \<Rightarrow> r0
                          | Some c \<Rightarrow> (case r0_base c of None \<Rightarrow> r0 | Some b \<Rightarrow> b))))"

subsection \<open>Concrete inputs for the PDE engine\<close>

text \<open>
  A solver for systems of two equations (Cramer's rule), a bond of face 100 paying 4 per
  cent semi-annually that matures in three years, a grid of the two nodes 0 and 1 with one
  time step a year, and parameters with mean reversion 1 towards 0 and no volatility.
\<close>

definition cramer_solve :: "real list list \<Rightarrow> real list \<Rightarrow> real list" where
  "cramer_solve M v =
     (let det = M ! 0 ! 0 * M ! 1 ! 1 - M ! 0 ! 1 * M ! 1 ! 0
      in [(M ! 1 ! 1 * v ! 0 - M ! 0 ! 1 * v ! 1) / det,
          (M ! 0 ! 0 * v ! 1 - M ! 1 ! 0 * v ! 0) / det])"

definition cramer_splu :: "real list list \<Rightarrow> error + (real list \<Rightarrow> real list)" where
  "cramer_splu M =
     (if M ! 0 ! 0 * M ! 1 ! 1 - M ! 0 ! 1 * M ! 1 ! 0 = 0 then Inl RuntimeError
      else Inr (cramer_solve M))"

definition demo_bond :: instrument where
  "demo_bond =
     \<lparr>face = 100, coupon_rate = 4 / 100, payments_per_year = 2, today = 0, maturity_date = 1080,
      schedule = [1080], call_schedule = [], year_fraction = (\<lambda>d. real_of_int d / 360)\<rparr>"

definition demo_pde_config :: "bool option \<Rightarrow> pde_config" where
  "demo_pde_config flag =
     \<lparr>pde_shift_theta_with_curve = flag, pde_r_min = 0, pde_r_max = 1, pde_grid_size = 2,
      pde_steps_year = 1\<rparr>"

definition demo_cir_params :: "string \<Rightarrow> real option" where
  "demo_cir_params key =
     (if key = ''theta'' then Some 0
      else if key = ''k'' then Some 1
      else if key = ''sigma'' then Some 0
      else None)"

subsection \<open>Properties of the PDE engine\<close>

lemma tl_update_first: "tl (xs[0 := x]) = tl xs"
  by (cases xs) simp_all

lemma lower_boundary_arrays:
  "lower_boundary (A, B, C) = (A[0 := 0], B[0 := B ! 0 + 2 * A ! 0], C[0 := C ! 0 - A ! 0])"
  by (simp add: lower_boundary_def Let_def)

lemma cn_operators_implicit:
  "fst (cn_operators theta k sigma dr dt r) =
     diags (tl (coef_A theta k sigma dr dt r))
       ((coef_B sigma dr dt r)[0 := coef_B sigma dr dt r ! 0 + 2 * coef_A theta k sigma dr dt r ! 0])
       (butlast ((coef_C theta k sigma dr dt r)
          [0 := coef_C theta k sigma dr dt r ! 0 - coef_A theta k sigma dr dt r ! 0]))"
  by (simp add: cn_operators_def lower_boundary_arrays tl_update_first)

lemma cn_operators_explicit:
  "snd (cn_operators theta k sigma dr dt r) =
     diags (tl (coef_R_sub theta k sigma dr dt r)) (coef_R_main sigma dr dt r)
       (butlast (coef_R_sup theta k sigma dr dt r))"
  by (simp add: cn_operators_def lower_boundary_arrays)

lemma diags_shape:
  "length (diags lo mn up) = length mn"
  "i < length mn \<Longrightarrow> length (diags lo mn up ! i) = length mn"
  by (simp_all add: diags_def)

lemma diags_entry:
  "i < length mn \<Longrightarrow> j < length mn \<Longrightarrow>
     diags lo mn up ! i ! j =
       (if j = i then mn ! i else if Suc j = i then lo ! j else if j = Suc i then up ! i else 0)"
  by (simp add: diags_def)

lemma diags_row_cong:
  assumes "length mn' = length mn" and "i < length mn" and "mn' ! i = mn ! i"
    and "up' ! i = up ! i"
  shows "diags lo mn' up' ! i = diags lo mn up ! i"
  using assms by (simp add: diags_def)

text \<open>
  C6, as amended. On a grid of at least two nodes the implicit operator \<open>M_L\<close> is a square
  matrix over the grid, so no row refers to a node outside it. Its first row holds the
  diagonal coefficient plus twice the sub-diagonal coefficient \<open>A[0]\<close>, then the
  super-diagonal coefficient minus \<open>A[0]\<close>, then zeros; every other row is the row of the
  uncorrected coefficients. The explicit operator \<open>M_R\<close> is built from its coefficients
  without any correction.
\<close>

theorem lower_boundary_correction:
  assumes "2 \<le> length r"
  shows "length (fst (cn_operators theta k sigma dr dt r)) = length r
     \<and> (\<forall>i < length r. length (fst (cn_operators theta k sigma dr dt r) ! i) = length r)
     \<and> fst (cn_operators theta k sigma dr dt r) ! 0 ! 0 =
         coef_B sigma dr dt r ! 0 + 2 * coef_A theta k sigma dr dt r ! 0
     \<and> fst (cn_operators theta k sigma dr dt r) ! 0 ! 1 =
         coef_C theta k sigma dr dt r ! 0 - coef_A theta k sigma dr dt r ! 0
     \<and> (\<forall>j. 2 \<le> j \<and> j < length r \<longrightarrow> fst (cn_operators theta k sigma dr dt r) ! 0 ! j = 0)
     \<and> (\<forall>i. 1 \<le> i \<and> i < length r \<longrightarrow>
           fst (cn_operators theta k sigma dr dt r) ! i =
             diags (tl (coef_A theta k sigma dr dt r)) (coef_B sigma dr dt r)
               (butlast (coef_C theta k sigma dr dt r)) ! i)
     \<and> snd (cn_operators theta k sigma dr dt r) =
         diags (tl (coef_R_sub theta k sigma dr dt r)) (coef_R_main sigma dr dt r)
           (butlast (coef_R_sup theta k sigma dr dt r))"
proof -
  let ?A = "coef_A theta k sigma dr dt r"
  let ?B = "coef_B sigma dr dt r"
  let ?C = "coef_C theta k sigma dr dt r"
  let ?B1 = "?B[0 := ?B ! 0 + 2 * ?A ! 0]"
  let ?C1 = "?C[0 := ?C ! 0 - ?A ! 0]"
  have lA: "length ?A = length r" and lB: "length ?B = length r" and lC: "length ?C = length r"
    by (simp_all add: coef_A_def coef_B_def coef_C_def)
  have lB1: "length ?B1 = length r" by (simp add: lB)
  have M: "fst (cn_operators theta k sigma dr dt r) = diags (tl ?A) ?B1 (butlast ?C1)"
    by (rule cn_operators_implicit)
  have bl: "butlast ?C1 = (butlast ?C)[0 := ?C ! 0 - ?A ! 0]"
    using assms by (simp add: butlast_list_update lC)
  have lbl: "length (butlast ?C) = length r - 1" by (simp add: lC)
  have shape1: "length (diags (tl ?A) ?B1 (butlast ?C1)) = length r"
    by (simp add: diags_shape lB)
  have shape2: "\<forall>i < length r. length (diags (tl ?A) ?B1 (butlast ?C1) ! i) = length r"
    by (simp add: diags_shape lB)
  have ne: "r \<noteq> []" using assms by auto
  have p0: "0 < length ?B1" and p1: "1 < length ?B1" using assms ne by (simp_all add: lB)
  have e00: "diags (tl ?A) ?B1 (butlast ?C1) ! 0 ! 0 = ?B ! 0 + 2 * ?A ! 0"
    using p0 by (simp only: diags_entry [OF p0 p0] if_True refl nth_list_update_eq length_list_update)
  have e01: "diags (tl ?A) ?B1 (butlast ?C1) ! 0 ! 1 = ?C ! 0 - ?A ! 0"
  proof -
    have "diags (tl ?A) ?B1 (butlast ?C1) ! 0 ! 1 =
        (if (1::nat) = 0 then ?B1 ! 0 else if Suc 1 = 0 then tl ?A ! 1
         else if (1::nat) = Suc 0 then butlast ?C1 ! 0 else 0)"
      by (rule diags_entry [OF p0 p1])
    also have "\<dots> = butlast ?C1 ! 0" by simp
    also have "\<dots> = ?C ! 0 - ?A ! 0"
    proof -
      have "0 < length r - 1" using assms by arith
      then have pb: "0 < length (butlast ?C)" by (simp only: lbl)
      show ?thesis by (simp only: bl nth_list_update_eq [OF pb])
    qed
    finally show ?thesis .
  qed
  have e0j: "\<forall>j. 2 \<le> j \<and> j < length r \<longrightarrow> diags (tl ?A) ?B1 (butlast ?C1) ! 0 ! j = 0"
  proof (intro allI impI)
    fix j assume j: "2 \<le> j \<and> j < length r"
    then have pj: "j < length ?B1" by (simp add: lB)
    show "diags (tl ?A) ?B1 (butlast ?C1) ! 0 ! j = 0"
      using j by (simp add: diags_entry [OF p0 pj])
  qed
  have rows: "\<forall>i. 1 \<le> i \<and> i < length r \<longrightarrow>
      diags (tl ?A) ?B1 (butlast ?C1) ! i = diags (tl ?A) ?B (butlast ?C) ! i"
  proof (intro allI impI)
    fix i assume i: "1 \<le> i \<and> i < length r"
    show "diags (tl ?A) ?B1 (butlast ?C1) ! i = diags (tl ?A) ?B (butlast ?C) ! i"
    proof (rule diags_row_cong)
      show "length ?B1 = length ?B" by simp
      show "i < length ?B" using i by (simp add: lB)
      show "?B1 ! i = ?B ! i" using i by simp
      show "butlast ?C1 ! i = butlast ?C ! i" using i by (simp add: bl)
    qed
  qed
  show ?thesis
    unfolding M using shape1 shape2 e00 e01 e0j rows cn_operators_explicit by blast
qed


lemma demo_coefficients:
  "coef_A 1 1 2 1 4 [1, 2, 3] = [- 2, - (9 / 2), - 7]"
  "coef_B 2 1 4 [1, 2, 3] = [7, 13, 19]"
  "coef_C 1 1 2 1 4 [1, 2, 3] = [- 2, - (7 / 2), - 5]"
  by (simp_all add: coef_A_def coef_B_def coef_C_def diff_at_def drift_at_def)

lemma demo_implicit_operator:
  "fst (cn_operators 1 1 2 1 4 [1, 2, 3]) = [[3, 0, 0], [- (9 / 2), 13, - (7 / 2)], [0, - 7, 19]]"
  by (simp add: cn_operators_implicit demo_coefficients diags_def upt_rec)

text \<open>
  C6 as stated fails. On the grid \<open>[1, 2, 3]\<close> with \<open>theta = k = 1\<close>, \<open>sigma = 2\<close>, \<open>dr = 1\<close>,
  \<open>dt = 4\<close> the first row has \<open>A[0] = -2\<close>, \<open>B[0] = 7\<close>, \<open>C[0] = -2\<close>, and the first row of
  \<open>M_L\<close> is \<open>[3, 0, 0]\<close>: the super-diagonal entry is changed, and the diagonal receives
  twice the sub-diagonal coefficient.
\<close>

theorem lower_boundary_counterexample:
  "coef_A 1 1 2 1 4 [1, 2, 3] ! 0 = - 2
   \<and> coef_B 2 1 4 [1, 2, 3] ! 0 = 7
   \<and> coef_C 1 1 2 1 4 [1, 2, 3] ! 0 = - 2
   \<and> fst (cn_operators 1 1 2 1 4 [1, 2, 3]) ! 0 = [3, 0, 0]
   \<and> fst (cn_operators 1 1 2 1 4 [1, 2, 3]) ! 0 ! 1 \<noteq> coef_C 1 1 2 1 4 [1, 2, 3] ! 0
   \<and> fst (cn_operators 1 1 2 1 4 [1, 2, 3]) ! 0 ! 0 \<noteq>
        coef_B 2 1 4 [1, 2, 3] ! 0 + coef_A 1 1 2 1 4 [1, 2, 3] ! 0"
  by (simp add: demo_implicit_operator demo_coefficients)

text \<open>The amended statement on the same grid.\<close>

theorem lower_boundary_correction_witness:
  "2 \<le> length [1, 2, 3 :: real]
   \<and> fst (cn_operators 1 1 2 1 4 [1, 2, 3]) ! 0 ! 0 = 7 + 2 * (- 2)
   \<and> fst (cn_operators 1 1 2 1 4 [1, 2, 3]) ! 0 ! 1 = - 2 - (- 2)
   \<and> fst (cn_operators 1 1 2 1 4 [1, 2, 3]) ! 0 ! 2 = 0
   \<and> fst (cn_operators 1 1 2 1 4 [1, 2, 3]) ! 1 = [- (9 / 2), 13, - (7 / 2)]
   \<and> fst (cn_operators 1 1 2 1 4 [1, 2, 3]) ! 2 = [0, - 7, 19]"
proof -
  have h: "2 \<le> length [1, 2, 3 :: real]" by simp
  note t = lower_boundary_correction [OF h, of 1 1 2 1 4]
  have d: "diags (tl (coef_A 1 1 2 1 4 [1, 2, 3])) (coef_B 2 1 4 [1, 2, 3])
             (butlast (coef_C 1 1 2 1 4 [1, 2, 3])) =
           [[7, - 2, 0], [- (9 / 2), 13, - (7 / 2)], [0, - 7, 19]]"
    by (simp add: demo_coefficients diags_def upt_rec)
  have r1: "fst (cn_operators 1 1 2 1 4 [1, 2, 3]) ! 1 = [- (9 / 2), 13, - (7 / 2)]"
    using t d by simp
  have r2: "fst (cn_operators 1 1 2 1 4 [1, 2, 3]) ! 2 = [0, - 7, 19]"
    using t d by simp
  have e: "fst (cn_operators 1 1 2 1 4 [1, 2, 3]) ! 0 ! 0 = 7 + 2 * (- 2)
      \<and> fst (cn_operators 1 1 2 1 4 [1, 2, 3]) ! 0 ! 1 = - 2 - (- 2)
      \<and> fst (cn_operators 1 1 2 1 4 [1, 2, 3]) ! 0 ! 2 = 0"
    using t by (simp add: demo_coefficients)
  from h e r1 r2 show ?thesis by blast
qed


lemma cir_pde_price_cache:
  "cir_pde_price splu cfg r0 bd params state_cache = Inr (p, c) \<Longrightarrow>
     c = cache_in_use r0 state_cache"
  by (auto simp: cir_pde_price_def Let_def split: sum.splits if_splits prod.splits)

lemma theta_effective_shifted:
  "theta_effective cfg theta_base r0 (cache_in_use r0 state_cache) =
     shifted_theta cfg theta_base r0 state_cache"
  by (cases "pde_shift_theta_with_curve cfg"; cases state_cache)
     (simp_all add: theta_effective_def cache_in_use_def shifted_theta_def Let_def)

lemma cir_pde_price_run:
  assumes "params ''theta'' = Some theta_base" and "params ''k'' = Some k"
    and "params ''sigma'' = Some sigma"
    and "linspace (pde_r_min cfg) (pde_r_max cfg) (pde_grid_size cfg) = Inr r"
    and "2 \<le> length r"
    and "splu (fst (cn_operators (shifted_theta cfg theta_base r0 state_cache) k sigma
                 (r ! 1 - r ! 0) (pde_dt cfg bd) r)) = Inr solve"
  shows "cir_pde_price splu cfg r0 bd params state_cache =
           Inr (interp r0 r
                  (backward_solve solve
                     (snd (cn_operators (shifted_theta cfg theta_base r0 state_cache) k sigma
                             (r ! 1 - r ! 0) (pde_dt cfg bd) r))
                     (pde_cashflows bd) (pde_call_events bd) (pde_dt cfg bd)
                     (nat (pde_steps cfg bd)) (year_fraction bd (maturity_date bd))
                     (map (\<lambda>x. face bd + coupon_amt bd) r)),
                cache_in_use r0 state_cache)"
proof -
  have p: "param params ''theta'' = Inr theta_base" "param params ''k'' = Inr k"
    "param params ''sigma'' = Inr sigma"
    using assms(1,2,3) by (simp_all add: param_def)
  have l: "\<not> length r < 2" using assms(5) by simp
  have dt: "year_fraction bd (maturity_date bd) / real_of_int (pde_steps cfg bd) = pde_dt cfg bd"
    by (simp add: pde_dt_def)
  have st: "(if py_int (year_fraction bd (maturity_date bd) * real_of_int (pde_steps_year cfg)) \<le> 2
             then 3
             else py_int (year_fraction bd (maturity_date bd) * real_of_int (pde_steps_year cfg)))
      = pde_steps cfg bd"
    by (simp add: pde_steps_def Let_def)
  show ?thesis
    unfolding cir_pde_price_def p sum.case Let_def assms(4) theta_effective_shifted st dt
    using l assms(6) by (simp add: split_beta)
qed

text \<open>
  C9, as amended. For a call whose parameters, grid and factorisation are there, the
  price is the interpolation at \<open>r0\<close> of the backward solve with the operators built from
  the shifted long-run mean \<open>theta + (r0 - r0_base)\<close>, or from \<open>theta\<close> itself when the
  configuration sets \<open>pde_shift_theta_with_curve\<close> to false; \<open>r0_base\<close> is the cached value.
  On the base call the operators are built from \<open>theta\<close> itself. A base call that returns gives the cache holding
  \<open>r0\<close>, and a call with a cache that returns gives that cache back unchanged.
\<close>

theorem pde_theta_and_cache:
  "(\<forall>theta_base k sigma r solve.
      params ''theta'' = Some theta_base \<and> params ''k'' = Some k \<and> params ''sigma'' = Some sigma
      \<and> linspace (pde_r_min cfg) (pde_r_max cfg) (pde_grid_size cfg) = Inr r \<and> 2 \<le> length r
      \<and> splu (fst (cn_operators (shifted_theta cfg theta_base r0 state_cache) k sigma
                     (r ! 1 - r ! 0) (pde_dt cfg bd) r)) = Inr solve
      \<longrightarrow>
      cir_pde_price splu cfg r0 bd params state_cache =
        Inr (interp r0 r
               (backward_solve solve
                  (snd (cn_operators (shifted_theta cfg theta_base r0 state_cache) k sigma
                          (r ! 1 - r ! 0) (pde_dt cfg bd) r))
                  (pde_cashflows bd) (pde_call_events bd) (pde_dt cfg bd)
                  (nat (pde_steps cfg bd)) (year_fraction bd (maturity_date bd))
                  (map (\<lambda>x. face bd + coupon_amt bd) r)),
             (case state_cache of None \<Rightarrow> \<lparr>r0_base = Some r0\<rparr> | Some c0 \<Rightarrow> c0)))
   \<and> (\<forall>theta_base k sigma r solve.
      params ''theta'' = Some theta_base \<and> params ''k'' = Some k \<and> params ''sigma'' = Some sigma
      \<and> linspace (pde_r_min cfg) (pde_r_max cfg) (pde_grid_size cfg) = Inr r \<and> 2 \<le> length r
      \<and> splu (fst (cn_operators theta_base k sigma (r ! 1 - r ! 0) (pde_dt cfg bd) r)) = Inr solve
      \<longrightarrow>
      cir_pde_price splu cfg r0 bd params None =
        Inr (interp r0 r
               (backward_solve solve
                  (snd (cn_operators theta_base k sigma (r ! 1 - r ! 0) (pde_dt cfg bd) r))
                  (pde_cashflows bd) (pde_call_events bd) (pde_dt cfg bd)
                  (nat (pde_steps cfg bd)) (year_fraction bd (maturity_date bd))
                  (map (\<lambda>x. face bd + coupon_amt bd) r)),
             \<lparr>r0_base = Some r0\<rparr>))
   \<and> (\<forall>p c. cir_pde_price splu cfg r0 bd params None = Inr (p, c) \<longrightarrow> c = \<lparr>r0_base = Some r0\<rparr>)
   \<and> (\<forall>p c c0. cir_pde_price splu cfg r0 bd params (Some c0) = Inr (p, c) \<longrightarrow> c = c0)"
proof (intro conjI allI impI)
  fix theta_base k sigma r solve
  assume h: "params ''theta'' = Some theta_base \<and> params ''k'' = Some k
      \<and> params ''sigma'' = Some sigma
      \<and> linspace (pde_r_min cfg) (pde_r_max cfg) (pde_grid_size cfg) = Inr r \<and> 2 \<le> length r
      \<and> splu (fst (cn_operators (shifted_theta cfg theta_base r0 state_cache) k sigma
                     (r ! 1 - r ! 0) (pde_dt cfg bd) r)) = Inr solve"
  have c: "cache_in_use r0 state_cache =
      (case state_cache of None \<Rightarrow> \<lparr>r0_base = Some r0\<rparr> | Some c0 \<Rightarrow> c0)"
    by (simp add: cache_in_use_def)
  from h have h1: "params ''theta'' = Some theta_base" and h2: "params ''k'' = Some k"
    and h3: "params ''sigma'' = Some sigma"
    and h4: "linspace (pde_r_min cfg) (pde_r_max cfg) (pde_grid_size cfg) = Inr r"
    and h5: "2 \<le> length r"
    and h6: "splu (fst (cn_operators (shifted_theta cfg theta_base r0 state_cache) k sigma
                     (r ! 1 - r ! 0) (pde_dt cfg bd) r)) = Inr solve"
    by blast+
  show "cir_pde_price splu cfg r0 bd params state_cache =
        Inr (interp r0 r
               (backward_solve solve
                  (snd (cn_operators (shifted_theta cfg theta_base r0 state_cache) k sigma
                          (r ! 1 - r ! 0) (pde_dt cfg bd) r))
                  (pde_cashflows bd) (pde_call_events bd) (pde_dt cfg bd)
                  (nat (pde_steps cfg bd)) (year_fraction bd (maturity_date bd))
                  (map (\<lambda>x. face bd + coupon_amt bd) r)),
             (case state_cache of None \<Rightarrow> \<lparr>r0_base = Some r0\<rparr> | Some c0 \<Rightarrow> c0))"
    using cir_pde_price_run [where splu = splu and params = params, OF h1 h2 h3 h4 h5 h6]
    by (simp only: c)
next
  fix theta_base k sigma r solve
  assume h: "params ''theta'' = Some theta_base \<and> params ''k'' = Some k
      \<and> params ''sigma'' = Some sigma
      \<and> linspace (pde_r_min cfg) (pde_r_max cfg) (pde_grid_size cfg) = Inr r \<and> 2 \<le> length r
      \<and> splu (fst (cn_operators theta_base k sigma (r ! 1 - r ! 0) (pde_dt cfg bd) r)) = Inr solve"
  have s: "shifted_theta cfg theta_base r0 None = theta_base"
    by (simp add: shifted_theta_def)
  have c: "cache_in_use r0 None = \<lparr>r0_base = Some r0\<rparr>"
    by (simp add: cache_in_use_def)
  from h have h1: "params ''theta'' = Some theta_base" and h2: "params ''k'' = Some k"
    and h3: "params ''sigma'' = Some sigma"
    and h4: "linspace (pde_r_min cfg) (pde_r_max cfg) (pde_grid_size cfg) = Inr r"
    and h5: "2 \<le> length r"
    and h6: "splu (fst (cn_operators theta_base k sigma (r ! 1 - r ! 0) (pde_dt cfg bd) r))
               = Inr solve"
    by blast+
  have h6': "splu (fst (cn_operators (shifted_theta cfg theta_base r0 None) k sigma
                     (r ! 1 - r ! 0) (pde_dt cfg bd) r)) = Inr solve"
    unfolding s by (rule h6)
  show "cir_pde_price splu cfg r0 bd params None =
        Inr (interp r0 r
               (backward_solve solve
                  (snd (cn_operators theta_base k sigma (r ! 1 - r ! 0) (pde_dt cfg bd) r))
                  (pde_cashflows bd) (pde_call_events bd) (pde_dt cfg bd)
                  (nat (pde_steps cfg bd)) (year_fraction bd (maturity_date bd))
                  (map (\<lambda>x. face bd + coupon_amt bd) r)),
             \<lparr>r0_base = Some r0\<rparr>)"
    using cir_pde_price_run [where splu = splu and params = params and state_cache = None,
        OF h1 h2 h3 h4 h5 h6']
    by (simp only: s c)
next
  fix p c
  assume "cir_pde_price splu cfg r0 bd params None = Inr (p, c)"
  then show "c = \<lparr>r0_base = Some r0\<rparr>"
    using cir_pde_price_cache [of splu cfg r0 bd params None] by (simp add: cache_in_use_def)
next
  fix p c c0
  assume "cir_pde_price splu cfg r0 bd params (Some c0) = Inr (p, c)"
  then show "c = c0"
    using cir_pde_price_cache [of splu cfg r0 bd params "Some c0"] by (simp add: cache_in_use_def)
qed

lemma demo_grid: "linspace 0 1 2 = Inr [0, 1]"
  by (simp add: linspace_def upt_rec)

lemma demo_pde_time: "pde_steps (demo_pde_config flag) demo_bond = 3"
  "pde_dt (demo_pde_config flag) demo_bond = 1"
  by (simp_all add: pde_dt_def pde_steps_def demo_pde_config_def demo_bond_def py_int_def)

lemma demo_shifted_theta:
  "shifted_theta (demo_pde_config None) 0 0 None = 0"
  "shifted_theta (demo_pde_config None) 0 1 (Some \<lparr>r0_base = Some 0\<rparr>) = 1"
  "shifted_theta (demo_pde_config (Some False)) 0 1 (Some \<lparr>r0_base = Some 0\<rparr>) = 0"
  by (simp_all add: shifted_theta_def demo_pde_config_def)

lemma demo_operators:
  "cn_operators 0 1 0 1 1 [0, 1] = ([[1, 0], [- (1 / 8), 3 / 2]], [[1, 0], [1 / 8, 1 / 2]])"
  "cn_operators 1 1 0 1 1 [0, 1] = ([[5 / 4, - (1 / 4)], [0, 3 / 2]], [[1, 1 / 8], [0, 1 / 2]])"
  by (simp_all add: cn_operators_def lower_boundary_arrays coef_A_def coef_B_def coef_C_def
        coef_R_sub_def coef_R_main_def coef_R_sup_def diff_at_def drift_at_def diags_def upt_rec)

lemma demo_factorisation:
  "cramer_splu [[1, 0], [- (1 / 8), 3 / 2]] = Inr (cramer_solve [[1, 0], [- (1 / 8), 3 / 2]])"
  "cramer_splu [[5 / 4, - (1 / 4)], [0, 3 / 2]] = Inr (cramer_solve [[5 / 4, - (1 / 4)], [0, 3 / 2]])"
  by (simp_all add: cramer_splu_def)

lemma demo_time_step:
  "cramer_solve [[1, 0], [- (1 / 8), 3 / 2]] (mat_vec [[1, 0], [1 / 8, 1 / 2]] [v0, v1]) =
     [v0, (v0 / 2 + v1) / 3]"
  "cramer_solve [[5 / 4, - (1 / 4)], [0, 3 / 2]] (mat_vec [[1, 1 / 8], [0, 1 / 2]] [v0, v1]) =
     [4 * v0 / 5 + v1 / 6, v1 / 3]"
  by (simp_all add: cramer_solve_def mat_vec_def Let_def field_simps)

lemma demo_backward:
  "backward_solve (cramer_solve [[1, 0], [- (1 / 8), 3 / 2]]) [[1, 0], [1 / 8, 1 / 2]] [] [] 1
     (Suc (Suc (Suc 0))) 3 [102, 102] = [102, 85 / 3]"
  "backward_solve (cramer_solve [[5 / 4, - (1 / 4)], [0, 3 / 2]]) [[1, 1 / 8], [0, 1 / 2]] [] [] 1
     (Suc (Suc (Suc 0))) 3 [102, 102] = [78217 / 1125, 34 / 9]"
  by (simp_all add: Let_def coupon_jumps_def call_obstacle_def demo_time_step)

lemma demo_pde_inputs:
  "demo_cir_params ''theta'' = Some 0" "demo_cir_params ''k'' = Some 1"
  "demo_cir_params ''sigma'' = Some 0"
  "linspace (pde_r_min (demo_pde_config flag)) (pde_r_max (demo_pde_config flag))
     (pde_grid_size (demo_pde_config flag)) = Inr [0, 1]"
  "2 \<le> length [0, 1 :: real]"
  "pde_cashflows demo_bond = []" "pde_call_events demo_bond = []"
  "year_fraction demo_bond (maturity_date demo_bond) = 3"
  "map (\<lambda>x. face demo_bond + coupon_amt demo_bond) [0, 1 :: real] = [102, 102]"
  by (simp_all add: demo_cir_params_def demo_pde_config_def demo_grid pde_cashflows_def
        pde_call_events_def demo_bond_def coupon_amt_def)

lemma demo_pde_spacing: "[0, 1 :: real] ! 1 - [0, 1] ! 0 = 1" "nat (3 :: int) = Suc (Suc (Suc 0))"
  by simp_all

lemmas demo_pde_run_simps =
  demo_shifted_theta demo_pde_time demo_operators demo_pde_inputs demo_pde_spacing snd_conv
  cache_in_use_def option.case

lemma demo_price_switched_off:
  "cir_pde_price cramer_splu (demo_pde_config (Some False)) 1 demo_bond demo_cir_params
     (Some \<lparr>r0_base = Some 0\<rparr>) = Inr (85 / 3, \<lparr>r0_base = Some 0\<rparr>)"
proof -
  have f: "cramer_splu (fst (cn_operators
        (shifted_theta (demo_pde_config (Some False)) 0 1 (Some \<lparr>r0_base = Some 0\<rparr>)) 1 0
        ([0, 1] ! 1 - [0, 1] ! 0) (pde_dt (demo_pde_config (Some False)) demo_bond) [0, 1])) =
      Inr (cramer_solve [[1, 0], [- (1 / 8), 3 / 2]])"
    by (simp add: demo_shifted_theta demo_pde_time demo_operators demo_factorisation)
  show ?thesis
    using cir_pde_price_run [where splu = cramer_splu and params = demo_cir_params,
        OF demo_pde_inputs(1) demo_pde_inputs(2) demo_pde_inputs(3) demo_pde_inputs(4)
           demo_pde_inputs(5) f]
    by (simp only: demo_pde_run_simps demo_backward) simp
qed

text \<open>
  C9 as stated fails when the flag is false. With \<open>theta = 0\<close>, \<open>k = 1\<close>, the cached
  \<open>r0_base = 0\<close> and \<open>r0 = 1\<close> the engine works with the mean 0, not \<open>0 + (1 - 0)\<close>, and
  prices at \<open>85/3\<close>.
\<close>

theorem pde_theta_counterexample:
  "cir_pde_price cramer_splu (demo_pde_config (Some False)) 1 demo_bond demo_cir_params
     (Some \<lparr>r0_base = Some 0\<rparr>) = Inr (85 / 3, \<lparr>r0_base = Some 0\<rparr>)
   \<and> theta_effective (demo_pde_config (Some False)) 0 1
       (cache_in_use 1 (Some \<lparr>r0_base = Some 0\<rparr>)) = 0
   \<and> theta_effective (demo_pde_config (Some False)) 0 1
       (cache_in_use 1 (Some \<lparr>r0_base = Some 0\<rparr>)) \<noteq> 0 + (1 - 0)"
  using demo_price_switched_off
  by (simp add: theta_effective_def cache_in_use_def demo_pde_config_def)

text \<open>
  With the default flag: a base call at \<open>r0 = 0\<close> works with the mean 0 and prices at 102;
  a second call at \<open>r0 = 1\<close> with the cache of the first works with the mean 1, prices at
  \<open>34/9\<close> (the mean 0 would give \<open>85/3\<close>) and returns the cache unchanged.
\<close>

theorem pde_theta_and_cache_witness:
  "cir_pde_price cramer_splu (demo_pde_config None) 0 demo_bond demo_cir_params None =
     Inr (102, \<lparr>r0_base = Some 0\<rparr>)
   \<and> cir_pde_price cramer_splu (demo_pde_config None) 1 demo_bond demo_cir_params
        (Some \<lparr>r0_base = Some 0\<rparr>) = Inr (34 / 9, \<lparr>r0_base = Some 0\<rparr>)"
proof -
  have f0: "cramer_splu (fst (cn_operators
        (shifted_theta (demo_pde_config None) 0 0 None) 1 0
        ([0, 1] ! 1 - [0, 1] ! 0) (pde_dt (demo_pde_config None) demo_bond) [0, 1])) =
      Inr (cramer_solve [[1, 0], [- (1 / 8), 3 / 2]])"
    by (simp add: demo_shifted_theta demo_pde_time demo_operators demo_factorisation)
  have f1: "cramer_splu (fst (cn_operators
        (shifted_theta (demo_pde_config None) 0 1 (Some \<lparr>r0_base = Some 0\<rparr>)) 1 0
        ([0, 1] ! 1 - [0, 1] ! 0) (pde_dt (demo_pde_config None) demo_bond) [0, 1])) =
      Inr (cramer_solve [[5 / 4, - (1 / 4)], [0, 3 / 2]])"
    by (simp add: demo_shifted_theta demo_pde_time demo_operators demo_factorisation)
  note t0 = pde_theta_and_cache [where splu = cramer_splu and params = demo_cir_params
      and cfg = "demo_pde_config None" and bd = demo_bond and state_cache = None,
      THEN conjunct1, rule_format,
      OF conjI [OF demo_pde_inputs(1) conjI [OF demo_pde_inputs(2) conjI [OF demo_pde_inputs(3)
           conjI [OF demo_pde_inputs(4) conjI [OF demo_pde_inputs(5) f0]]]]]]
  note t1 = pde_theta_and_cache [where splu = cramer_splu and params = demo_cir_params
      and cfg = "demo_pde_config None" and bd = demo_bond
      and state_cache = "Some \<lparr>r0_base = Some 0\<rparr>",
      THEN conjunct1, rule_format,
      OF conjI [OF demo_pde_inputs(1) conjI [OF demo_pde_inputs(2) conjI [OF demo_pde_inputs(3)
           conjI [OF demo_pde_inputs(4) conjI [OF demo_pde_inputs(5) f1]]]]]]
  have a: "cir_pde_price cramer_splu (demo_pde_config None) 0 demo_bond demo_cir_params None =
     Inr (102, \<lparr>r0_base = Some 0\<rparr>)"
    using t0 by (simp only: demo_pde_run_simps demo_backward) simp
  have b: "cir_pde_price cramer_splu (demo_pde_config None) 1 demo_bond demo_cir_params
        (Some \<lparr>r0_base = Some 0\<rparr>) = Inr (34 / 9, \<lparr>r0_base = Some 0\<rparr>)"
    using t1 by (simp only: demo_pde_run_simps demo_backward) simp
  from a b show ?thesis by (intro conjI)
qed

section \<open>The Monte-Carlo engine (hw_lsmc.py)\<close>

record mc_config =
  mc_paths :: nat
  mc_steps_year :: int
  mc_seed :: int

text \<open>
  A Python dictionary as an association list in insertion order: \<open>d[k] = v\<close> replaces the
  value of a key that is present and appends a new key; \<open>map_of\<close> looks a key up.
\<close>

fun dict_set :: "'k \<Rightarrow> 'v \<Rightarrow> ('k \<times> 'v) list \<Rightarrow> ('k \<times> 'v) list" where
  "dict_set k v [] = [(k, v)]"
| "dict_set k v ((k', v') # d) = (if k' = k then (k, v) # d else (k', v') # dict_set k v d)"

text \<open>
  The state cache: the matrix of normal draws (one row for each path), the regression
  coefficients by time step and the exercise frequencies by call date (\<open>str\<close> of the date
  in the source). Coefficients are the three numbers of the quadratic basis.
\<close>

type_synonym betas = "real \<times> real \<times> real"

record mc_cache =
  rng :: "real list list"
  regressions :: "(nat \<times> betas) list"
  exercise_prob :: "(int \<times> real) list"

text \<open>
  \<open>np.linalg.lstsq(basis, V, rcond=None)[0]\<close> is a parameter: the coefficients, or the
  exception it raises. \<open>normal_draws seed paths N\<close> is
  \<open>np.random.RandomState(seed).normal(0.0, 1.0, (paths, N))\<close>.
\<close>

type_synonym least_squares = "real list list \<Rightarrow> real list \<Rightarrow> error + betas"

text \<open>The state \<open>X\<close> along one path, from the row of draws of that path.\<close>

definition ou_next :: "real \<Rightarrow> real \<Rightarrow> real \<Rightarrow> real \<Rightarrow> real \<Rightarrow> real" where
  "ou_next a sigma dt x z =
     (if \<bar>a\<bar> < 1 / 10 ^ 12 then x + sigma * sqrt dt * z
      else x * (1 - a * dt) + sigma * sqrt dt * z)"

fun ou_path :: "real \<Rightarrow> real \<Rightarrow> real \<Rightarrow> real \<Rightarrow> real list \<Rightarrow> real list" where
  "ou_path a sigma dt x [] = [x]"
| "ou_path a sigma dt x (z # zs) = x # ou_path a sigma dt (ou_next a sigma dt x z) zs"

definition simulate :: "real \<Rightarrow> real \<Rightarrow> real \<Rightarrow> nat \<Rightarrow> real list list \<Rightarrow> real list list" where
  "simulate a sigma dt N Z = map (\<lambda>row. ou_path a sigma dt 0 (take N row)) Z"

text \<open>The shift \<open>alpha(t)\<close>; \<open>fwd t\<close> is the curve's forward rate over \<open>[t, t + 0.001]\<close>.\<close>

definition shift_alpha :: "(real \<Rightarrow> real) \<Rightarrow> real \<Rightarrow> real \<Rightarrow> real \<Rightarrow> real" where
  "shift_alpha fwd a sigma t =
     fwd t + (if 1 / 10 ^ 5 < \<bar>a\<bar> then (sigma\<^sup>2 / (2 * a\<^sup>2)) * (1 - exp (- a * t))\<^sup>2
              else 1 / 2 * sigma\<^sup>2 * t\<^sup>2)"

text \<open>The cashflows (time, amount) after the valuation date, principal included.\<close>

definition mc_cashflows :: "instrument \<Rightarrow> (real \<times> real) list" where
  "mc_cashflows bd =
     map (\<lambda>d. (year_fraction bd d,
                coupon_amt bd + (if d = maturity_date bd then face bd else 0)))
       (filter (\<lambda>d. today bd < d) (schedule bd))"

text \<open>
  The call events by time step. The source fills \<open>call_step_to_price\<close> and
  \<open>call_step_to_date\<close> with the same keys in the same loop; here one dictionary holds the
  pair. The division \<open>t_call / dt\<close> is Python's and raises on a zero \<open>dt\<close>.
\<close>

fun call_steps ::
  "instrument \<Rightarrow> real \<Rightarrow> nat \<Rightarrow> (int \<times> real) list \<Rightarrow> (nat \<times> real \<times> int) list
     \<Rightarrow> error + (nat \<times> real \<times> int) list" where
  "call_steps bd dt N [] acc = Inr acc"
| "call_steps bd dt N ((qd, price) # cs) acc =
     (if qd \<le> today bd then call_steps bd dt N cs acc
      else if dt = 0 then Inl ZeroDivisionError
      else
        (let t_call = year_fraction bd qd;
             step = np_round (t_call / dt);
             step' = max 1 (min step (int N))
         in call_steps bd dt N cs (dict_set (nat step') (price, qd) acc)))"

text \<open>One step of the backward induction, in the order of the loop body.\<close>

definition discount_values :: "real list list \<Rightarrow> real \<Rightarrow> nat \<Rightarrow> real list \<Rightarrow> real list" where
  "discount_values R dt i V = map (\<lambda>p. V ! p * exp (- (R ! p ! i) * dt)) [0..<length V]"

fun add_cashflows ::
  "(real \<times> real) list \<Rightarrow> real \<Rightarrow> real \<Rightarrow> real list \<times> real \<Rightarrow> real list \<times> real" where
  "add_cashflows [] t t_next st = st"
| "add_cashflows ((ct, amt) # cfs) t t_next (V, curr_amt) =
     (if t < ct \<and> ct \<le> t_next
      then add_cashflows cfs t t_next (map (\<lambda>v. v + amt) V, curr_amt + amt)
      else add_cashflows cfs t t_next (V, curr_amt))"

definition basis_rows :: "real list list \<Rightarrow> nat \<Rightarrow> real list list" where
  "basis_rows X j = map (\<lambda>row. [1, row ! j, (row ! j)\<^sup>2]) X"

definition cont_val :: "betas \<Rightarrow> real list list \<Rightarrow> real list" where
  "cont_val b basis =
     (case b of (b0, b1, b2) \<Rightarrow> map (\<lambda>row. row ! 0 * b0 + row ! 1 * b1 + row ! 2 * b2) basis)"

text \<open>
  The coefficients at a call step: fitted and stored on the base run, where an exception
  of the fit gives zeros; read from the cache otherwise, with zeros for a missing step.
\<close>

definition choose_betas ::
  "least_squares \<Rightarrow> bool \<Rightarrow> mc_cache \<Rightarrow> nat \<Rightarrow> real list list \<Rightarrow> real list
     \<Rightarrow> betas \<times> mc_cache" where
  "choose_betas lstsq is_base_run sc i basis V =
     (if is_base_run then
        (let b = (case lstsq basis V of Inr b \<Rightarrow> b | Inl e \<Rightarrow> (0, 0, 0))
         in (b, sc\<lparr>regressions := dict_set i b (regressions sc)\<rparr>))
      else
        ((case map_of (regressions sc) i of None \<Rightarrow> (0, 0, 0) | Some b \<Rightarrow> b), sc))"

text \<open>\<open>float(np.mean(exercise))\<close>: the share of exercised paths.\<close>

definition mean_flags :: "bool list \<Rightarrow> real" where
  "mean_flags fs = real (length (filter id fs)) / real (length fs)"

definition call_decision ::
  "least_squares \<Rightarrow> bool \<Rightarrow> real list list \<Rightarrow> int \<Rightarrow> nat \<Rightarrow> real \<Rightarrow> real
     \<Rightarrow> real list \<times> mc_cache \<Rightarrow> real list \<times> mc_cache" where
  "call_decision lstsq is_base_run X qd i strike curr_amt st =
     (case st of (V, sc) \<Rightarrow>
        (let basis = basis_rows X (i + 1);
             (b, sc1) = choose_betas lstsq is_base_run sc i basis V;
             cv = cont_val b basis;
             exercise = map (\<lambda>c. strike < c - curr_amt) cv;
             sc2 = (if is_base_run
                    then sc1\<lparr>exercise_prob := dict_set qd (mean_flags exercise) (exercise_prob sc1)\<rparr>
                    else sc1)
         in (map (\<lambda>p. if exercise ! p then strike + curr_amt else V ! p) [0..<length V], sc2)))"

definition lsmc_step ::
  "least_squares \<Rightarrow> bool \<Rightarrow> real list list \<Rightarrow> real list list \<Rightarrow> real list \<Rightarrow> real
     \<Rightarrow> (real \<times> real) list \<Rightarrow> (nat \<times> real \<times> int) list \<Rightarrow> nat
     \<Rightarrow> real list \<times> mc_cache \<Rightarrow> real list \<times> mc_cache" where
  "lsmc_step lstsq is_base_run X R t_grid dt cfs calls i st =
     (case st of (V, sc) \<Rightarrow>
        (let t = t_grid ! i;
             t_next = t_grid ! (i + 1);
             (V2, curr_amt) = add_cashflows cfs t t_next (discount_values R dt i V, 0)
         in case map_of calls (i + 1) of
              None \<Rightarrow> (V2, sc)
            | Some (strike, qd) \<Rightarrow>
                call_decision lstsq is_base_run X qd i strike curr_amt (V2, sc)))"

text \<open>\<open>for i in range(N - 1, -1, -1)\<close>: \<open>lsmc_loop ... n\<close> runs the steps \<open>n - 1, ..., 0\<close>.\<close>

fun lsmc_loop ::
  "least_squares \<Rightarrow> bool \<Rightarrow> real list list \<Rightarrow> real list list \<Rightarrow> real list \<Rightarrow> real
     \<Rightarrow> (real \<times> real) list \<Rightarrow> (nat \<times> real \<times> int) list \<Rightarrow> nat
     \<Rightarrow> real list \<times> mc_cache \<Rightarrow> real list \<times> mc_cache" where
  "lsmc_loop lstsq is_base_run X R t_grid dt cfs calls 0 st = st"
| "lsmc_loop lstsq is_base_run X R t_grid dt cfs calls (Suc i) st =
     lsmc_loop lstsq is_base_run X R t_grid dt cfs calls i
       (lsmc_step lstsq is_base_run X R t_grid dt cfs calls i st)"

definition mean :: "real list \<Rightarrow> real" where
  "mean V = sum_list V / real (length V)"

definition std :: "real list \<Rightarrow> real" where
  "std V = sqrt (mean (map (\<lambda>v. \<bar>v - mean V\<bar>\<^sup>2) V))"

text \<open>
  \<open>price\<close>. A cached matrix with fewer than \<open>N\<close> columns makes the simulation read a
  column that does not exist.
\<close>

definition hw_lsmc_price ::
  "least_squares \<Rightarrow> (int \<Rightarrow> nat \<Rightarrow> nat \<Rightarrow> real list list) \<Rightarrow> (real \<Rightarrow> real) \<Rightarrow> mc_config
     \<Rightarrow> instrument \<Rightarrow> (string \<Rightarrow> real option) \<Rightarrow> mc_cache option
     \<Rightarrow> error + (real \<times> real \<times> mc_cache)" where
  "hw_lsmc_price lstsq normal_draws fwd cfg bd params state_cache =
     (case param params ''a'' of Inl e \<Rightarrow> Inl e | Inr a \<Rightarrow>
      case param params ''sigma'' of Inl e \<Rightarrow> Inl e | Inr sigma \<Rightarrow>
        (let T = year_fraction bd (maturity_date bd);
             N0 = py_int (T * real_of_int (mc_steps_year cfg));
             N = nat (if N0 \<le> 1 then 2 else N0);
             dt = T / real N;
             sc = (case state_cache of
                     None \<Rightarrow> \<lparr>rng = normal_draws (mc_seed cfg) (mc_paths cfg) N,
                              regressions = [], exercise_prob = []\<rparr>
                   | Some c \<Rightarrow> c);
             n_paths = length (rng sc)
         in if \<not> list_all (\<lambda>row. N \<le> length row) (rng sc) then Inl IndexError
            else
              (let X = simulate a sigma dt N (rng sc)
               in case linspace 0 T (int N + 1) of
                    Inl e \<Rightarrow> Inl e
                  | Inr t_grid \<Rightarrow>
                      (let alpha = map (shift_alpha fwd a sigma) t_grid;
                           R = map (\<lambda>row. map (\<lambda>i. row ! i + alpha ! i) [0..<N + 1]) X;
                           cfs = mc_cashflows bd
                       in case call_steps bd dt N (call_schedule bd) [] of
                            Inl e \<Rightarrow> Inl e
                          | Inr calls \<Rightarrow>
                              (let V = replicate n_paths 0;
                                   is_base_run = (regressions sc = []);
                                   (V', sc') = lsmc_loop lstsq is_base_run X R t_grid dt cfs
                                                 calls N (V, sc)
                               in Inr (mean V', std V' / sqrt (real n_paths), sc'))))))"







subsection \<open>Concrete inputs for the Monte-Carlo engine\<close>

text \<open>
  A fit that returns zeros and one that raises, a bond of face 100 paying 4 per cent
  semi-annually that matures in one month and is callable at 100 after half a month, the
  same bond callable after 25 days instead, two paths and two time steps.
\<close>

definition demo_least_squares :: least_squares where
  "demo_least_squares basis V = Inr (0, 0, 0)"

definition failing_least_squares :: least_squares where
  "failing_least_squares basis V = Inl LinAlgError"

definition demo_callable :: instrument where
  "demo_callable =
     \<lparr>face = 100, coupon_rate = 4 / 100, payments_per_year = 2, today = 0, maturity_date = 30,
      schedule = [30], call_schedule = [(15, 100)],
      year_fraction = (\<lambda>d. real_of_int d / 360)\<rparr>"


definition demo_mc_config :: mc_config where
  "demo_mc_config = \<lparr>mc_paths = 2, mc_steps_year = 24, mc_seed = 12345\<rparr>"

definition demo_hw_params :: "string \<Rightarrow> real option" where
  "demo_hw_params key =
     (if key = ''a'' then Some (3 / 100) else if key = ''sigma'' then Some (1 / 100) else None)"

definition demo_draws :: "int \<Rightarrow> nat \<Rightarrow> nat \<Rightarrow> real list list" where
  "demo_draws seed paths N =
     map (\<lambda>p. map (\<lambda>i. if even (p + i) then 1 else - 1) [0..<N]) [0..<paths]"

definition demo_cache :: "(nat \<times> betas) list \<Rightarrow> mc_cache" where
  "demo_cache regs = \<lparr>rng = [[1, - 1], [- 1, 1]], regressions = regs, exercise_prob = []\<rparr>"

subsection \<open>Properties of the Monte-Carlo engine\<close>

lemma length_discount_values: "length (discount_values R dt i V) = length V"
  by (simp add: discount_values_def)

lemma length_add_cashflows:
  "length (fst (add_cashflows cfs t t_next (V, c))) = length V"
  by (induction cfs arbitrary: V c) (auto split: if_splits)

lemma add_cashflows_length_eq:
  "add_cashflows cfs t t_next (V, c) = (V2, c2) \<Longrightarrow> length V2 = length V"
  using length_add_cashflows [of cfs t t_next V c] by simp

lemma length_cont_val: "length (cont_val b basis) = length basis"
  by (cases b) (simp add: cont_val_def)

lemma length_basis_rows: "length (basis_rows X j) = length X"
  by (simp add: basis_rows_def)

lemma call_decision_values:
  assumes "length X = length V" and "p < length V"
  shows "fst (call_decision lstsq is_base_run X qd i strike curr_amt (V, sc)) ! p =
           (if strike < cont_val (fst (choose_betas lstsq is_base_run sc i (basis_rows X (Suc i)) V))
                          (basis_rows X (Suc i)) ! p - curr_amt
            then strike + curr_amt else V ! p)"
    and "length (fst (call_decision lstsq is_base_run X qd i strike curr_amt (V, sc))) = length V"
  using assms
  by (simp_all add: call_decision_def Let_def split_beta length_cont_val length_basis_rows)

text \<open>
  C3. At a time step \<open>i\<close> whose end \<open>i + 1\<close> is a call step with the strike \<open>strike\<close>, with
  \<open>V2\<close> the running values after discounting and adding the cashflows of the step and
  \<open>curr_amt\<close> the cashflow amount paid in the step: the running value of a path after the
  step is \<open>strike + curr_amt\<close> when its continuation estimate minus \<open>curr_amt\<close> exceeds
  the strike, and its value \<open>V2\<close> otherwise.
\<close>

theorem exercise_rule:
  assumes "map_of calls (Suc i) = Some (strike, qd)"
    and "add_cashflows cfs (t_grid ! i) (t_grid ! Suc i) (discount_values R dt i V, 0) = (V2, curr_amt)"
    and "length X = length V" and "p < length V"
  shows "fst (lsmc_step lstsq is_base_run X R t_grid dt cfs calls i (V, sc)) ! p =
           (if strike < cont_val (fst (choose_betas lstsq is_base_run sc i (basis_rows X (Suc i)) V2))
                          (basis_rows X (Suc i)) ! p - curr_amt
            then strike + curr_amt else V2 ! p)
     \<and> length (fst (lsmc_step lstsq is_base_run X R t_grid dt cfs calls i (V, sc))) = length V"
proof -
  have l2: "length V2 = length V"
    using add_cashflows_length_eq [OF assms(2)] by (simp add: length_discount_values)
  have step: "lsmc_step lstsq is_base_run X R t_grid dt cfs calls i (V, sc) =
      call_decision lstsq is_base_run X qd i strike curr_amt (V2, sc)"
    using assms(1,2) by (simp add: lsmc_step_def Let_def)
  have x: "length X = length V2" and p: "p < length V2"
    using assms(3,4) l2 by simp_all
  show ?thesis
    unfolding step
    using call_decision_values [OF x p, of lstsq is_base_run qd i strike curr_amt sc] l2
    by simp
qed

text \<open>
  Two paths with running values 110 and 90, a coupon of 5 in the step, the strike 100 and
  the frozen coefficients \<open>(100, 10, 0)\<close>: the first path is called at 105, the second
  keeps its value 95.
\<close>

theorem exercise_rule_witness:
  "fst (lsmc_step demo_least_squares False [[0, 1], [0, - 1]] [[0, 0], [0, 0]] [0, 1] 1 [(1, 5)]
          [(1, (100, 7))] 0
          ([110, 90], \<lparr>rng = [[1], [- 1]], regressions = [(0, (100, 10, 0))], exercise_prob = []\<rparr>))
     = [105, 95]"
proof -
  let ?sc = "\<lparr>rng = [[1], [- 1]], regressions = [(0, (100, 10, 0))], exercise_prob = []\<rparr>"
  let ?X = "[[0, 1], [0, - 1 :: real]]"
  let ?R = "[[0, 0], [0, 0 :: real]]"
  let ?st = "lsmc_step demo_least_squares False ?X ?R [0, 1] 1 [(1, 5)] [(1, (100, 7))] 0
               ([110, 90], ?sc)"
  have c: "map_of [(1 :: nat, (100 :: real, 7 :: int))] (Suc 0) = Some (100, 7)" by simp
  have cf: "add_cashflows [(1, 5)] ([0, 1] ! 0) ([0, 1] ! Suc 0) (discount_values ?R 1 0 [110, 90], 0)
              = ([115, 95], 5)"
    by (simp add: discount_values_def upt_rec)
  have lx: "length ?X = length [110, 90 :: real]" by simp
  have b: "cont_val (fst (choose_betas demo_least_squares False ?sc 0 (basis_rows ?X (Suc 0)) [115, 95]))
             (basis_rows ?X (Suc 0)) = [110, 90]"
    by (simp add: choose_betas_def basis_rows_def cont_val_def)
  have v0: "fst ?st ! 0 = 105"
    using exercise_rule [OF c cf lx, of 0 demo_least_squares False ?sc] by (simp add: b)
  have v1: "fst ?st ! 1 = 95"
    using exercise_rule [OF c cf lx, of 1 demo_least_squares False ?sc] by (simp add: b)
  have len: "length (fst ?st) = 2"
    using exercise_rule [OF c cf lx, of 0 demo_least_squares False ?sc] by simp
  show ?thesis
    using v0 v1 len by (cases "fst ?st"; simp) (rename_tac a as, case_tac as; simp)
qed







lemma hw_lsmc_price_raises_alike:
  "isl (hw_lsmc_price lstsq normal_draws fwd cfg bd params state_cache) =
   isl (hw_lsmc_price lstsq' normal_draws fwd cfg bd params state_cache)"
  by (simp add: hw_lsmc_price_def Let_def split_beta split: sum.splits)

lemma demo_draws_value: "demo_draws 12345 2 2 = [[1, - 1], [- 1, 1]]"
  by (simp add: demo_draws_def upt_rec numeral_2_eq_2)

lemma demo_call_steps:
  "call_steps demo_callable (1 / 12 / 2) 2 [(15, 100)] [] = Inr [(1, (100, 15))]"
  by (simp add: demo_callable_def np_round_def Let_def)

lemma demo_time_grid: "linspace 0 (1 / 12) 3 = Inr [0, 1 / 24, 1 / 12]"
  by (simp add: linspace_def upt_rec numeral_3_eq_3)

lemma demo_cashflows_value: "mc_cashflows demo_callable = [(1 / 12, 102)]"
  by (simp add: mc_cashflows_def demo_callable_def coupon_amt_def)

lemma hw_lsmc_price_run:
  assumes "params ''a'' = Some a" and "params ''sigma'' = Some sigma"
    and "year_fraction bd (maturity_date bd) = T"
    and "nat (if py_int (T * real_of_int (mc_steps_year cfg)) \<le> 1 then 2
              else py_int (T * real_of_int (mc_steps_year cfg))) = N"
    and "(case state_cache of
            None \<Rightarrow> \<lparr>rng = normal_draws (mc_seed cfg) (mc_paths cfg) N,
                     regressions = [], exercise_prob = []\<rparr>
          | Some c \<Rightarrow> c) = sc"
    and "list_all (\<lambda>row. N \<le> length row) (rng sc)"
    and "simulate a sigma (T / real N) N (rng sc) = X"
    and "linspace 0 T (int N + 1) = Inr t_grid"
    and "map (\<lambda>row. map (\<lambda>i. row ! i + map (shift_alpha fwd a sigma) t_grid ! i) [0..<N + 1]) X = R"
    and "call_steps bd (T / real N) N (call_schedule bd) [] = Inr calls"
    and "lsmc_loop lstsq (regressions sc = []) X R t_grid (T / real N) (mc_cashflows bd) calls N
           (replicate (length (rng sc)) 0, sc) = (V', sc')"
  shows "hw_lsmc_price lstsq normal_draws fwd cfg bd params state_cache =
           Inr (mean V', std V' / sqrt (real (length (rng sc))), sc')"
proof -
  have p1: "param params ''a'' = Inr a" and p2: "param params ''sigma'' = Inr sigma"
    using assms(1,2) by (simp_all add: param_def)
  show ?thesis
    unfolding hw_lsmc_price_def p1 p2 sum.case Let_def assms(3) assms(4) assms(5) assms(7)
      assms(8) assms(9) assms(10) assms(11)
    using assms(6) by simp
qed






lemma demo_loop:
  assumes "X = [[0, x1, x2], [0, y1, y2]]" and "R = [[0, r1, r2], [0, s1, s2]]"
  shows "lsmc_loop lstsq base X R [0, 1 / 24, 1 / 12] dt [(1 / 12, 102)] [(1, (100, 15))]
           (Suc (Suc 0)) ([0, 0], sc) =
         call_decision lstsq base X 15 0 100 0 ([102, 102], sc)"
proof -
  have s1: "lsmc_step lstsq base X R [0, 1 / 24, 1 / 12] dt [(1 / 12, 102)] [(1, (100, 15))]
              (Suc 0) ([0, 0], sc) = ([102, 102], sc)"
    by (simp add: lsmc_step_def discount_values_def upt_rec)
  have s0: "lsmc_step lstsq base X R [0, 1 / 24, 1 / 12] dt [(1 / 12, 102)] [(1, (100, 15))]
              0 ([102, 102], sc) = call_decision lstsq base X 15 0 100 0 ([102, 102], sc)"
    by (simp add: lsmc_step_def discount_values_def upt_rec assms(2))
  show ?thesis by (simp only: lsmc_loop.simps s1 s0)
qed

lemma demo_decision_failing:
  assumes "X = [[0, x1, x2], [0, y1, y2]]"
  shows "call_decision failing_least_squares True X 15 0 100 0
           ([102, 102], \<lparr>rng = Z, regressions = [], exercise_prob = []\<rparr>) =
         ([102, 102], \<lparr>rng = Z, regressions = [(0, (0, 0, 0))], exercise_prob = [(15, 0)]\<rparr>)"
  by (simp add: call_decision_def choose_betas_def failing_least_squares_def basis_rows_def
        cont_val_def mean_flags_def assms upt_rec Let_def)





lemma demo_paths:
  "\<exists>x1 x2 y1 y2. simulate (3 / 100) (1 / 100) (1 / 12 / real 2) 2 [[1, - 1], [- 1, 1]] =
     [[0, x1, x2], [0, y1, y2]]"
  by (simp add: simulate_def)

lemma demo_rates:
  "\<exists>r1 r2 s1 s2.
     map (\<lambda>row. map (\<lambda>i. row ! i + map (shift_alpha (\<lambda>t. 0) (3 / 100) (1 / 100)) [0, 1 / 24, 1 / 12] ! i)
                  [0..<2 + 1])
       [[0, x1, x2], [0, y1, y2]] = [[0, r1, r2], [0, s1, s2]]"
  by (simp add: shift_alpha_def upt_rec numeral_2_eq_2)

lemma demo_moments: "mean [102, 102] = 102" "std [102, 102] = 0" "mean [100, 100] = 100"
  "std [100, 100] = 0"
  by (simp_all add: mean_def std_def)

lemma demo_price_failing:
  "hw_lsmc_price failing_least_squares demo_draws (\<lambda>t. 0) demo_mc_config demo_callable demo_hw_params
     None = Inr (102, 0, \<lparr>rng = [[1, - 1], [- 1, 1]], regressions = [(0, (0, 0, 0))], exercise_prob = [(15, 0)]\<rparr>)"
proof -
  let ?sc = "\<lparr>rng = [[1, - 1], [- 1, 1]], regressions = [], exercise_prob = []\<rparr>"
  obtain x1 x2 y1 y2 where
    X: "simulate (3 / 100) (1 / 100) (1 / 12 / real 2) 2 (rng ?sc) = [[0, x1, x2], [0, y1, y2]]"
    using demo_paths by (auto simp: list.size)
  obtain r1 r2 s1 s2 where
    R: "map (\<lambda>row. map (\<lambda>i. row ! i +
              map (shift_alpha (\<lambda>t. 0) (3 / 100) (1 / 100)) [0, 1 / 24, 1 / 12] ! i) [0..<2 + 1])
          [[0, x1, x2], [0, y1, y2]] = [[0, r1, r2], [0, s1, s2]]"
    using demo_rates [of x1 x2 y1 y2] by (elim exE) (erule that)
  have h1: "demo_hw_params ''a'' = Some (3 / 100)" and h2: "demo_hw_params ''sigma'' = Some (1 / 100)"
    by (simp_all add: demo_hw_params_def)
  have h3: "year_fraction demo_callable (maturity_date demo_callable) = 1 / 12"
    by (simp add: demo_callable_def)
  have h4: "nat (if py_int (1 / 12 * real_of_int (mc_steps_year demo_mc_config)) \<le> 1 then 2
                 else py_int (1 / 12 * real_of_int (mc_steps_year demo_mc_config))) = 2"
    by (simp add: demo_mc_config_def py_int_def)
  have h5: "(case None of
               None \<Rightarrow> \<lparr>rng = demo_draws (mc_seed demo_mc_config) (mc_paths demo_mc_config) 2,
                        regressions = [], exercise_prob = []\<rparr>
             | Some c \<Rightarrow> c) = ?sc"
    by (simp add: demo_mc_config_def demo_draws_value)
  have h6: "list_all (\<lambda>row. 2 \<le> length row) (rng ?sc)"
    by (simp add: list.size)
  have h8: "linspace 0 (1 / 12) (int 2 + 1) = Inr [0, 1 / 24, 1 / 12]"
    using demo_time_grid by simp
  have h10: "call_steps demo_callable (1 / 12 / real 2) 2 (call_schedule demo_callable) [] =
      Inr [(1, (100, 15))]"
    using demo_call_steps by (simp add: demo_callable_def)
  have b: "(regressions ?sc = []) = True" by (simp add: list.size)
  have z: "replicate (length (rng ?sc)) (0 :: real) = [0, 0]"
    by (simp add: list.size numeral_2_eq_2)
  have h11: "lsmc_loop failing_least_squares (regressions ?sc = []) [[0, x1, x2], [0, y1, y2]]
      [[0, r1, r2], [0, s1, s2]] [0, 1 / 24, 1 / 12] (1 / 12 / real 2) (mc_cashflows demo_callable)
      [(1, (100, 15))] 2 (replicate (length (rng ?sc)) 0, ?sc) = ([102, 102], \<lparr>rng = [[1, - 1], [- 1, 1]], regressions = [(0, (0, 0, 0))], exercise_prob = [(15, 0)]\<rparr>)"
    unfolding b z demo_cashflows_value numeral_2_eq_2
    by (simp only: demo_loop [OF refl refl] demo_decision_failing [OF refl])
  have n: "sqrt (real (length (rng ?sc))) = sqrt 2" by (simp add: list.size)
  show ?thesis
    using hw_lsmc_price_run [where params = demo_hw_params and bd = demo_callable
        and cfg = demo_mc_config and normal_draws = demo_draws and state_cache = "None"
        and fwd = "\<lambda>t. 0" and lstsq = failing_least_squares, OF h1 h2 h3 h4 h5 h6 X h8 R h10 h11]
    by (simp add: demo_moments)
qed










text \<open>
  C5, as amended. When the least-squares fit raises at a call step of the base run, the
  exception is caught: the coefficients are zeros, they are stored in the cache for that
  step, every continuation estimate is zero, the call decision is taken with them, and
  whether the pricing call raises does not depend on the fit.
\<close>

theorem regression_failure_defaults:
  assumes "lstsq (basis_rows X (Suc i)) V = Inl e" and "length X = length V"
  shows "choose_betas lstsq True sc i (basis_rows X (Suc i)) V =
           ((0, 0, 0), sc\<lparr>regressions := dict_set i (0, 0, 0) (regressions sc)\<rparr>)
     \<and> cont_val (0, 0, 0) (basis_rows X (Suc i)) = map (\<lambda>row. 0) X
     \<and> fst (call_decision lstsq True X qd i strike curr_amt (V, sc)) =
         map (\<lambda>v. if strike < - curr_amt then strike + curr_amt else v) V
     \<and> regressions (snd (call_decision lstsq True X qd i strike curr_amt (V, sc))) =
         dict_set i (0, 0, 0) (regressions sc)
     \<and> isl (hw_lsmc_price lstsq normal_draws fwd cfg bd params state_cache) =
         isl (hw_lsmc_price lstsq' normal_draws fwd cfg bd params state_cache)"
proof -
  have cb: "choose_betas lstsq True sc i (basis_rows X (Suc i)) V =
      ((0, 0, 0), sc\<lparr>regressions := dict_set i (0, 0, 0) (regressions sc)\<rparr>)"
    using assms(1) by (simp add: choose_betas_def Let_def)
  have cv: "cont_val (0, 0, 0) (basis_rows X (Suc i)) = map (\<lambda>row. 0) X"
    by (simp add: cont_val_def basis_rows_def)
  have v: "fst (call_decision lstsq True X qd i strike curr_amt (V, sc)) =
      map (\<lambda>v. if strike < - curr_amt then strike + curr_amt else v) V"
  proof -
    have "fst (call_decision lstsq True X qd i strike curr_amt (V, sc)) =
        map (\<lambda>p. if map (\<lambda>c. strike < c - curr_amt) (map (\<lambda>row. 0) X) ! p
                  then strike + curr_amt else V ! p) [0..<length V]"
      by (simp add: call_decision_def cb cv Let_def)
    also have "\<dots> = map (\<lambda>v. if strike < - curr_amt then strike + curr_amt else v) V"
      using assms(2) by (intro nth_equalityI) simp_all
    finally show ?thesis .
  qed
  have r: "regressions (snd (call_decision lstsq True X qd i strike curr_amt (V, sc))) =
      dict_set i (0, 0, 0) (regressions sc)"
    by (simp add: call_decision_def cb cv Let_def)
  from cb cv v r hw_lsmc_price_raises_alike show ?thesis by (intro conjI)
qed

text \<open>
  C5 as stated fails: a base run whose fit raises \<open>LinAlgError\<close> returns a price, 102,
  with zero coefficients frozen into the cache (with the coefficients of the witness of
  C4 the same bond prices at 100).
\<close>

theorem regression_failure_counterexample:
  "failing_least_squares (basis_rows [[0, 1, 2], [0, - 1, - 2]] (Suc 0)) [102, 102] = Inl LinAlgError
   \<and> hw_lsmc_price failing_least_squares demo_draws (\<lambda>t. 0) demo_mc_config demo_callable
        demo_hw_params None =
      Inr (102, 0, \<lparr>rng = [[1, - 1], [- 1, 1]], regressions = [(0, (0, 0, 0))],
                   exercise_prob = [(15, 0)]\<rparr>)"
  using demo_price_failing by (simp add: failing_least_squares_def)

text \<open>The amended statement at a failing fit on two paths.\<close>

theorem regression_failure_defaults_witness:
  "failing_least_squares (basis_rows [[0, 1, 2], [0, - 1, - 2]] (Suc 0)) [102, 102] = Inl LinAlgError
   \<and> fst (call_decision failing_least_squares True [[0, 1, 2], [0, - 1, - 2]] 15 0 100 0
          ([102, 102], demo_cache [])) = [102, 102]
   \<and> regressions (snd (call_decision failing_least_squares True [[0, 1, 2], [0, - 1, - 2]] 15 0 100 0
          ([102, 102], demo_cache []))) = [(0, (0, 0, 0))]"
proof -
  have h: "failing_least_squares (basis_rows [[0, 1, 2], [0, - 1, - 2]] (Suc 0)) [102, 102] =
      Inl LinAlgError"
    by (simp add: failing_least_squares_def)
  have l: "length [[0, 1, 2], [0, - 1, - 2 :: real]] = length [102, 102 :: real]" by simp
  note t = regression_failure_defaults [where lstsq = failing_least_squares
      and X = "[[0, 1, 2], [0, - 1, - 2]]" and i = 0 and V = "[102, 102]" and e = LinAlgError
      and sc = "demo_cache []" and qd = 15 and strike = 100 and curr_amt = 0, OF h l]
  have a: "fst (call_decision failing_least_squares True [[0, 1, 2], [0, - 1, - 2]] 15 0 100 0
          ([102, 102], demo_cache [])) = [102, 102]"
    using t by simp
  have b: "regressions (snd (call_decision failing_least_squares True [[0, 1, 2], [0, - 1, - 2]]
          15 0 100 0 ([102, 102], demo_cache []))) = [(0, (0, 0, 0))]"
    using t by (simp add: demo_cache_def)
  from h a b show ?thesis by (intro conjI)
qed

end
